theory Spec2Isabelle
  imports Main
begin

section \<open>Python values as the resume writer sees them\<close>

text \<open>
  The module under verification is \<^verbatim>\<open>src/config/writer/finalize_resume.py\<close>. A Python
  \<^verbatim>\<open>str\<close> is a sequence of Unicode code points, so a string is a list of code points
  here (a \<^typ>\<open>char\<close> of HOL is a byte and cannot hold the em dash U+2014 of the
  module's date pattern). \<open>str\<close> writes an ASCII literal.
\<close>

type_synonym pstr = "nat list"

definition str :: "string \<Rightarrow> pstr" where
  "str s = map of_char s"

text \<open>
  What \<^verbatim>\<open>json.loads\<close> can return. A float is carried as the two things the module can
  observe of it: whether it is non-zero (its truth value) and the text \<^verbatim>\<open>str()\<close> gives
  for it. A dict is its list of items in insertion order.
\<close>

datatype pyval =
    PNone
  | PBool bool
  | PInt int
  | PFloat bool pstr
  | PStr pstr
  | PList "pyval list"
  | PDict "(pstr \<times> pyval) list"

datatype py_error = JSONDecodeError | AttributeError | TypeError

text \<open>
  The built-ins the module calls consult tables that are not part of the repository: the
  Unicode character database (for \<^verbatim>\<open>\w\<close>, \<^verbatim>\<open>\d\<close>, \<^verbatim>\<open>str.lower\<close>, \<^verbatim>\<open>str.title\<close>, and
  for \<^verbatim>\<open>str.isprintable\<close>, which \<^verbatim>\<open>repr\<close> of a string asks). On ASCII the model writes
  them out; beyond ASCII they are the fields of a parameter \<open>U\<close>, so every theorem below
  holds whatever those tables contain.
\<close>

record pylib =
  uni_alnum :: "nat \<Rightarrow> bool"
  uni_decimal :: "nat \<Rightarrow> bool"
  uni_lower :: "pstr \<Rightarrow> pstr"
  uni_title :: "pstr \<Rightarrow> pstr"
  uni_printable :: "nat \<Rightarrow> bool"

subsection \<open>Character classes\<close>

text \<open>
  \<^verbatim>\<open>str.isspace\<close>, which is also what \<^verbatim>\<open>str.strip()\<close>, \<^verbatim>\<open>str.split()\<close> and the regular
  expression \<^verbatim>\<open>\s\<close> use on a \<^verbatim>\<open>str\<close>: the complete set of CPython.
\<close>

definition isspace :: "nat \<Rightarrow> bool" where
  "isspace c =
     ((9 \<le> c \<and> c \<le> 13) \<or> (28 \<le> c \<and> c \<le> 32) \<or> c = 133 \<or> c = 160 \<or> c = 5760 \<or>
      (8192 \<le> c \<and> c \<le> 8202) \<or> c = 8232 \<or> c = 8233 \<or> c = 8239 \<or> c = 8287 \<or> c = 12288)"

definition ascii :: "pstr \<Rightarrow> bool" where
  "ascii s = list_all (\<lambda>c. c < 128) s"

definition ascii_upper_letter :: "nat \<Rightarrow> bool" where
  "ascii_upper_letter c = (65 \<le> c \<and> c \<le> 90)"

definition ascii_lower_letter :: "nat \<Rightarrow> bool" where
  "ascii_lower_letter c = (97 \<le> c \<and> c \<le> 122)"

definition ascii_digit :: "nat \<Rightarrow> bool" where
  "ascii_digit c = (48 \<le> c \<and> c \<le> 57)"

text \<open>The regular expression \<^verbatim>\<open>\w\<close>: alphanumeric or underscore.\<close>

definition is_word :: "pylib \<Rightarrow> nat \<Rightarrow> bool" where
  "is_word U c =
     (if c < 128 then ascii_upper_letter c \<or> ascii_lower_letter c \<or> ascii_digit c \<or> c = 95
      else uni_alnum U c)"

text \<open>The regular expression \<^verbatim>\<open>\d\<close>: a decimal digit.\<close>

definition is_decimal :: "pylib \<Rightarrow> nat \<Rightarrow> bool" where
  "is_decimal U c = (if c < 128 then ascii_digit c else uni_decimal U c)"

definition ascii_lower :: "nat \<Rightarrow> nat" where
  "ascii_lower c = (if ascii_upper_letter c then c + 32 else c)"

definition ascii_upper :: "nat \<Rightarrow> nat" where
  "ascii_upper c = (if ascii_lower_letter c then c - 32 else c)"

text \<open>\<^verbatim>\<open>str.lower()\<close>.\<close>

definition lower :: "pylib \<Rightarrow> pstr \<Rightarrow> pstr" where
  "lower U s = (if ascii s then map ascii_lower s else uni_lower U s)"

text \<open>
  \<^verbatim>\<open>str.title()\<close>: a cased character is upper-cased when the character before it is
  not cased, and lower-cased otherwise.
\<close>

fun ascii_title :: "bool \<Rightarrow> pstr \<Rightarrow> pstr" where
  "ascii_title prev [] = []"
| "ascii_title prev (c # cs) =
     (if prev then ascii_lower c else ascii_upper c)
       # ascii_title (ascii_upper_letter c \<or> ascii_lower_letter c) cs"

definition title :: "pylib \<Rightarrow> pstr \<Rightarrow> pstr" where
  "title U s = (if ascii s then ascii_title False s else uni_title U s)"

text \<open>
  A lower-case ASCII letter \<open>p\<close> of a pattern compiled with \<^verbatim>\<open>re.IGNORECASE\<close> matches
  \<open>c\<close>: the letter, its capital, and the code points CPython adds (U+0130 and U+0131
  for i, U+017F for s, U+212A for k).
\<close>

definition imatch :: "nat \<Rightarrow> nat \<Rightarrow> bool" where
  "imatch p c =
     (c = p \<or> c + 32 = p \<or> (p = 105 \<and> (c = 304 \<or> c = 305)) \<or> (p = 115 \<and> c = 383) \<or>
      (p = 107 \<and> c = 8490))"

subsection \<open>String methods\<close>

definition strip :: "pstr \<Rightarrow> pstr" where
  "strip s = rev (dropWhile isspace (rev (dropWhile isspace s)))"

text \<open>The pieces of \<open>s\<close> between the characters that satisfy \<open>P\<close>.\<close>

fun split_when :: "(nat \<Rightarrow> bool) \<Rightarrow> pstr \<Rightarrow> pstr list" where
  "split_when P [] = [[]]"
| "split_when P (c # cs) =
     (if P c then [] # split_when P cs
      else (case split_when P cs of p # ps \<Rightarrow> (c # p) # ps | [] \<Rightarrow> [[c]]))"

text \<open>\<^verbatim>\<open>s.split(",")\<close> and \<^verbatim>\<open>s.split("/")\<close>: split at one character.\<close>

definition split_char :: "nat \<Rightarrow> pstr \<Rightarrow> pstr list" where
  "split_char d s = split_when (\<lambda>c. c = d) s"

text \<open>\<^verbatim>\<open>s.split()\<close>: the maximal runs of non-whitespace.\<close>

definition split_ws :: "pstr \<Rightarrow> pstr list" where
  "split_ws s = filter (\<lambda>p. p \<noteq> []) (split_when isspace s)"

text \<open>\<^verbatim>\<open>s.replace(a, b)\<close> for single characters.\<close>

definition replace_char :: "nat \<Rightarrow> nat \<Rightarrow> pstr \<Rightarrow> pstr" where
  "replace_char a b s = map (\<lambda>c. if c = a then b else c) s"

definition starts_with :: "pstr \<Rightarrow> pstr \<Rightarrow> bool" where
  "starts_with sub s = (take (length sub) s = sub)"

text \<open>\<^verbatim>\<open>sub in s\<close>.\<close>

fun contains :: "pstr \<Rightarrow> pstr \<Rightarrow> bool" where
  "contains sub [] = (sub = [])"
| "contains sub (c # cs) = (starts_with sub (c # cs) \<or> contains sub cs)"

text \<open>\<^verbatim>\<open>s.split(sep, 1)[-1]\<close>: the text after the first \<open>sep\<close>, or all of \<open>s\<close>.\<close>

fun after_first :: "pstr \<Rightarrow> pstr \<Rightarrow> pstr option" where
  "after_first sep [] = (if sep = [] then Some [] else None)"
| "after_first sep (c # cs) =
     (if starts_with sep (c # cs) then Some (drop (length sep) (c # cs))
      else after_first sep cs)"

definition split1_last :: "pstr \<Rightarrow> pstr \<Rightarrow> pstr" where
  "split1_last sep s = (case after_first sep s of Some r \<Rightarrow> r | None \<Rightarrow> s)"

subsection \<open>Regular expressions\<close>

text \<open>
  \<^verbatim>\<open>re.split\<close> for a pattern that cannot match the empty string. \<open>m s\<close> is the length of
  the match that starts at the head of \<open>s\<close>, if there is one. The scan takes the leftmost
  match, emits the text before it and goes on after it.
\<close>

fun re_split :: "(pstr \<Rightarrow> nat option) \<Rightarrow> pstr \<Rightarrow> pstr list" where
  "re_split m [] = [[]]"
| "re_split m (c # cs) =
     (case m (c # cs) of
        Some (Suc n) \<Rightarrow> [] # re_split m (drop n cs)
      | _ \<Rightarrow> (case re_split m cs of p # ps \<Rightarrow> (c # p) # ps | [] \<Rightarrow> [[c]]))"

text \<open>
  The match of \<^verbatim>\<open>\s*[C]\s*\<close> at the head of \<open>s\<close>, for a character class \<open>C\<close>. The first
  \<^verbatim>\<open>\s*\<close> is greedy and backtracks: of the whitespace run at the head it takes the most
  characters \<open>k\<close> that leave a character of \<open>C\<close> next. The second \<^verbatim>\<open>\s*\<close> takes all the
  whitespace that follows.
\<close>

definition sep_match :: "(nat \<Rightarrow> bool) \<Rightarrow> pstr \<Rightarrow> nat option" where
  "sep_match C s =
     (case filter (\<lambda>k. k < length s \<and> C (s ! k)) (rev [0 ..< Suc (length (takeWhile isspace s))]) of
        [] \<Rightarrow> None
      | k # _ \<Rightarrow> Some (Suc (k + length (takeWhile isspace (drop (Suc k) s)))))"

text \<open>
  The match of \<^verbatim>\<open>\s+in\s+\<close> under \<^verbatim>\<open>re.IGNORECASE\<close> at the head of \<open>s\<close>. No character that
  matches \<^verbatim>\<open>i\<close> is whitespace, so the first \<^verbatim>\<open>\s+\<close> takes the whole whitespace run.
\<close>

definition in_match :: "pstr \<Rightarrow> nat option" where
  "in_match s =
     (let w = length (takeWhile isspace s) in
      case drop w s of
        i # n # x # rest \<Rightarrow>
          if 0 < w \<and> imatch 105 i \<and> imatch 110 n \<and> isspace x
          then Some (w + 3 + length (takeWhile isspace rest)) else None
      | _ \<Rightarrow> None)"

text \<open>\<^verbatim>\<open>re.search(pat, s, re.IGNORECASE)\<close> for a pattern of lower-case ASCII letters.\<close>

fun isearch :: "pstr \<Rightarrow> pstr \<Rightarrow> bool" where
  "isearch pat [] = (pat = [])"
| "isearch pat (c # cs) =
     ((length pat \<le> length (c # cs) \<and> list_all2 imatch pat (take (length pat) (c # cs)))
      \<or> isearch pat cs)"

text \<open>\<^verbatim>\<open>re.search(r"\d{4}", s)\<close>: the first four decimal digits in a row.\<close>

fun search_d4 :: "pylib \<Rightarrow> pstr \<Rightarrow> pstr option" where
  "search_d4 U [] = None"
| "search_d4 U (c # cs) =
     (if 4 \<le> length (c # cs) \<and> list_all (is_decimal U) (take 4 (c # cs))
      then Some (take 4 (c # cs)) else search_d4 U cs)"

section \<open>Helpers of the writer\<close>

definition MONTH_MAP :: "(pstr \<times> pstr) list" where
  "MONTH_MAP =
     [(str ''jan'', str ''01''), (str ''january'', str ''01''),
      (str ''feb'', str ''02''), (str ''february'', str ''02''),
      (str ''mar'', str ''03''), (str ''march'', str ''03''),
      (str ''apr'', str ''04''), (str ''april'', str ''04''),
      (str ''may'', str ''05''),
      (str ''jun'', str ''06''), (str ''june'', str ''06''),
      (str ''jul'', str ''07''), (str ''july'', str ''07''),
      (str ''aug'', str ''08''), (str ''august'', str ''08''),
      (str ''sep'', str ''09''), (str ''sept'', str ''09''), (str ''september'', str ''09''),
      (str ''oct'', str ''10''), (str ''october'', str ''10''),
      (str ''nov'', str ''11''), (str ''november'', str ''11''),
      (str ''dec'', str ''12''), (str ''december'', str ''12'')]"

text \<open>
  \<^verbatim>\<open>_DATE_SPLIT_RE\<close> is the pattern \<^verbatim>\<open>\s*[...]\s*\<close> whose character class holds three
  characters: the hyphen U+002D, the hyphen U+002D again, and the em dash U+2014 (bytes
  2d 2d e2 80 94 of the file). Inside a character class \<^verbatim>\<open>x-y\<close> is a range.
  Python's parser takes the first \<^verbatim>\<open>-\<close> as a literal, sees the second \<^verbatim>\<open>-\<close> as the range
  operator and the em dash as the upper end, so the class is the range of code points
  from 45 to 8212: it holds the hyphen, the en dash (8211) and the em dash, and also the
  full stop, the slash, every ASCII digit and every ASCII letter.
\<close>

definition DATE_SPLIT_class :: "nat \<Rightarrow> bool" where
  "DATE_SPLIT_class c = (45 \<le> c \<and> c \<le> 8212)"

definition DATE_SPLIT_RE_split :: "pstr \<Rightarrow> pstr list" where
  "DATE_SPLIT_RE_split s = re_split (sep_match DATE_SPLIT_class) s"

text \<open>
  The dashes that the comment beside the pattern lists as the separators (hyphen, a
  second dash, em dash; the spec names the second one as the en dash U+2013).
\<close>

definition dash_family :: "nat \<Rightarrow> bool" where
  "dash_family c = (c = 45 \<or> c = 8211 \<or> c = 8212)"

definition parse_month_year :: "pylib \<Rightarrow> pyval \<Rightarrow> pstr \<times> pstr" where
  "parse_month_year U v =
     (case v of
        PStr text0 \<Rightarrow>
          (let text = strip text0 in
           if text = [] then ([], [])
           else
             let tokens = split_ws (replace_char 44 32 text) in
             if length tokens < 2 then ([], [])
             else
               let month_raw = lower U (filter (is_word U) (hd tokens)) in
               (case search_d4 U text of
                  None \<Rightarrow> ([], [])
                | Some year \<Rightarrow>
                    (case map_of MONTH_MAP month_raw of
                       None \<Rightarrow> ([], [])
                     | Some month \<Rightarrow> if month = [] then ([], []) else (year, month))))
      | _ \<Rightarrow> ([], []))"

definition parse_date_range :: "pylib \<Rightarrow> pyval \<Rightarrow> pstr \<times> pstr" where
  "parse_date_range U v =
     (case v of
        PStr dates0 \<Rightarrow>
          (let dates = strip dates0 in
           if dates = [] then ([], [])
           else
             let parts = DATE_SPLIT_RE_split dates in
             if parts = [] then ([], [])
             else
               let start_raw = strip (hd parts);
                   end_raw = (if 1 < length parts then strip (parts ! 1) else []);
                   (start_y, start_m) = parse_month_year U (PStr start_raw);
                   start_iso = (if start_y \<noteq> [] \<and> start_m \<noteq> [] then start_y @ [45] @ start_m else []);
                   end_iso =
                     (if end_raw \<noteq> [] \<and> \<not> isearch (str ''present'') end_raw
                      then (let (end_y, end_m) = parse_month_year U (PStr end_raw) in
                            if end_y \<noteq> [] \<and> end_m \<noteq> [] then end_y @ [45] @ end_m else [])
                      else [])
               in (start_iso, end_iso))
      | _ \<Rightarrow> ([], []))"

subsection \<open>Dynamic typing\<close>

text \<open>The truth value of a Python object, as \<^verbatim>\<open>x or y\<close> and \<^verbatim>\<open>if x:\<close> take it.\<close>

fun truthy :: "pyval \<Rightarrow> bool" where
  "truthy PNone = False"
| "truthy (PBool b) = b"
| "truthy (PInt i) = (i \<noteq> 0)"
| "truthy (PFloat nz t) = nz"
| "truthy (PStr s) = (s \<noteq> [])"
| "truthy (PList xs) = (xs \<noteq> [])"
| "truthy (PDict d) = (d \<noteq> [])"

text \<open>\<^verbatim>\<open>v or d\<close>.\<close>

definition or_else :: "pyval \<Rightarrow> pyval \<Rightarrow> pyval" where
  "or_else v d = (if truthy v then v else d)"

text \<open>\<^verbatim>\<open>d.get(k)\<close>: \<^verbatim>\<open>None\<close> for a key that is not there.\<close>

definition dict_get :: "(pstr \<times> pyval) list \<Rightarrow> pstr \<Rightarrow> pyval" where
  "dict_get d k = (case map_of d k of Some v \<Rightarrow> v | None \<Rightarrow> PNone)"

fun nat_digits :: "nat \<Rightarrow> pstr" where
  "nat_digits n = (if n < 10 then [48 + n] else nat_digits (n div 10) @ [48 + n mod 10])"

declare nat_digits.simps [simp del]

text \<open>\<^verbatim>\<open>str.isprintable\<close> of one character.\<close>

definition is_printable :: "pylib \<Rightarrow> nat \<Rightarrow> bool" where
  "is_printable U c = (if c < 128 then 32 \<le> c \<and> c < 127 else uni_printable U c)"

text \<open>The last \<open>w\<close> hexadecimal digits of \<open>n\<close>, in lower case.\<close>

fun hex_fixed :: "nat \<Rightarrow> nat \<Rightarrow> pstr" where
  "hex_fixed 0 n = []"
| "hex_fixed (Suc w) n =
     hex_fixed w (n div 16) @ [if n mod 16 < 10 then 48 + n mod 16 else 87 + n mod 16]"

text \<open>
  \<^verbatim>\<open>repr\<close> of a string, as CPython writes it. The quote is the apostrophe, or the double
  quote when the string has an apostrophe and no double quote. The quote and the backslash
  get a backslash; tab, newline and return are written \<^verbatim>\<open>\t\<close>, \<^verbatim>\<open>\n\<close>, \<^verbatim>\<open>\r\<close>; any other
  character that is not printable is written \<^verbatim>\<open>\xhh\<close>, \<^verbatim>\<open>\uhhhh\<close> or \<^verbatim>\<open>\Uhhhhhhhh\<close>.
\<close>

definition repr_char :: "pylib \<Rightarrow> nat \<Rightarrow> nat \<Rightarrow> pstr" where
  "repr_char U q c =
     (if c = q \<or> c = 92 then [92, c]
      else if c = 9 then [92, 116]
      else if c = 10 then [92, 110]
      else if c = 13 then [92, 114]
      else if is_printable U c then [c]
      else if c \<le> 255 then [92, 120] @ hex_fixed 2 c
      else if c \<le> 65535 then [92, 117] @ hex_fixed 4 c
      else [92, 85] @ hex_fixed 8 c)"

definition repr_str :: "pylib \<Rightarrow> pstr \<Rightarrow> pstr" where
  "repr_str U s =
     (let q = (if 39 \<in> set s \<and> 34 \<notin> set s then 34 else 39)
      in q # concat (map (repr_char U q) s) @ [q])"

text \<open>
  \<^verbatim>\<open>repr(v)\<close>. A list is written \<^verbatim>\<open>[a, b]\<close> and a dict \<^verbatim>\<open>{k: v, k: v}\<close>, with \<^verbatim>\<open>repr\<close> of
  each part; the text of a float is the one it carries.
\<close>

fun py_repr :: "pylib \<Rightarrow> pyval \<Rightarrow> pstr"
  and repr_elems :: "pylib \<Rightarrow> pyval list \<Rightarrow> pstr"
  and repr_items :: "pylib \<Rightarrow> (pstr \<times> pyval) list \<Rightarrow> pstr"
where
  "py_repr U PNone = str ''None''"
| "py_repr U (PBool b) = (if b then str ''True'' else str ''False'')"
| "py_repr U (PInt i) = (if i < 0 then 45 # nat_digits (nat (- i)) else nat_digits (nat i))"
| "py_repr U (PFloat nz t) = t"
| "py_repr U (PStr s) = repr_str U s"
| "py_repr U (PList xs) = [91] @ repr_elems U xs @ [93]"
| "py_repr U (PDict d) = [123] @ repr_items U d @ [125]"
| "repr_elems U [] = []"
| "repr_elems U (x # xs) =
     py_repr U x @ (if xs = [] then [] else [44, 32] @ repr_elems U xs)"
| "repr_items U [] = []"
| "repr_items U ((k, v) # kvs) =
     repr_str U k @ [58, 32] @ py_repr U v @ (if kvs = [] then [] else [44, 32] @ repr_items U kvs)"

text \<open>\<^verbatim>\<open>str(v)\<close>: the string itself, and \<^verbatim>\<open>repr(v)\<close> for every other value.\<close>

fun py_str :: "pylib \<Rightarrow> pyval \<Rightarrow> pstr" where
  "py_str U (PStr s) = s"
| "py_str U PNone = py_repr U PNone"
| "py_str U (PBool b) = py_repr U (PBool b)"
| "py_str U (PInt i) = py_repr U (PInt i)"
| "py_str U (PFloat nz t) = py_repr U (PFloat nz t)"
| "py_str U (PList xs) = py_repr U (PList xs)"
| "py_str U (PDict d) = py_repr U (PDict d)"

text \<open>
  \<^verbatim>\<open>for x in v\<close>: a list gives its elements, a string its characters, a dict its keys; any
  other object is not iterable and the loop raises \<^verbatim>\<open>TypeError\<close>.
\<close>

fun py_iter :: "pyval \<Rightarrow> py_error + pyval list" where
  "py_iter (PList xs) = Inr xs"
| "py_iter (PStr s) = Inr (map (\<lambda>c. PStr [c]) s)"
| "py_iter (PDict d) = Inr (map (\<lambda>kv. PStr (fst kv)) d)"
| "py_iter PNone = Inl TypeError"
| "py_iter (PBool b) = Inl TypeError"
| "py_iter (PInt i) = Inl TypeError"
| "py_iter (PFloat nz t) = Inl TypeError"

text \<open>
  A loop whose body appends to \<^verbatim>\<open>out\<close>: \<open>f x\<close> is what one pass appends, or the exception it
  raises, which ends the loop.
\<close>

fun collect :: "('a \<Rightarrow> py_error + 'b list) \<Rightarrow> 'a list \<Rightarrow> py_error + 'b list" where
  "collect f [] = Inr []"
| "collect f (x # xs) =
     (case f x of
        Inl e \<Rightarrow> Inl e
      | Inr ys \<Rightarrow> (case collect f xs of Inl e \<Rightarrow> Inl e | Inr zs \<Rightarrow> Inr (ys @ zs)))"

text \<open>\<^verbatim>\<open>str(entry.get(k) or "").strip()\<close>, the way every converter reads a field.\<close>

definition field_str :: "pylib \<Rightarrow> (pstr \<times> pyval) list \<Rightarrow> string \<Rightarrow> pstr" where
  "field_str U d k = strip (py_str U (or_else (dict_get d (str k)) (PStr [])))"

text \<open>\<^verbatim>\<open>if s: out[k] = s\<close>: the item a non-empty string adds to the dict being built.\<close>

definition put :: "string \<Rightarrow> pstr \<Rightarrow> (pstr \<times> pyval) list" where
  "put k s = (if s \<noteq> [] then [(str k, PStr s)] else [])"

text \<open>\<^verbatim>\<open>if xs: out[k] = xs\<close> for a list of strings.\<close>

definition put_list :: "string \<Rightarrow> pstr list \<Rightarrow> (pstr \<times> pyval) list" where
  "put_list k xs = (if xs \<noteq> [] then [(str k, PList (map PStr xs))] else [])"

section \<open>The leaf parsers\<close>

definition parse_city_region :: "pyval \<Rightarrow> pstr \<times> pstr" where
  "parse_city_region v =
     (case v of
        PStr location \<Rightarrow>
          (let parts = map strip (filter (\<lambda>p. strip p \<noteq> []) (split_char 44 location)) in
           if parts = [] then ([], [])
           else if length parts = 1 then (parts ! 0, [])
           else (parts ! 0, parts ! 1))
      | _ \<Rightarrow> ([], []))"

text \<open>
  The \<^verbatim>\<open>try\<close> around the username has nothing to catch: \<^verbatim>\<open>split\<close> and the comprehension do
  not raise on a string.
\<close>

definition parse_link_profile :: "pylib \<Rightarrow> pyval \<Rightarrow> pyval option" where
  "parse_link_profile U v =
     (case v of
        PStr url0 \<Rightarrow>
          if strip url0 = [] then None
          else
            (let url = strip url0;
                 lowered = lower U url;
                 network =
                   (if contains (str ''linkedin.com'') lowered then str ''LinkedIn''
                    else if contains (str ''github.com'') lowered then str ''GitHub''
                    else str ''Profile'');
                 path = split1_last (str ''://'') url;
                 segments = filter (\<lambda>s. s \<noteq> []) (split_char 47 path);
                 username = (if segments \<noteq> [] then last segments else [])
             in Some (PDict [(str ''network'', PStr network), (str ''username'', PStr username),
                             (str ''url'', PStr url)]))
      | _ \<Rightarrow> None)"

definition split_degree_title :: "pyval \<Rightarrow> pstr \<times> pstr" where
  "split_degree_title v =
     (case v of
        PStr title0 \<Rightarrow>
          (let title = strip title0 in
           if title = [] then ([], [])
           else
             let parts = re_split in_match title in
             if length parts = 1 then (title, [])
             else (strip (parts ! 0), strip (parts ! 1)))
      | _ \<Rightarrow> ([], []))"

definition bullet_text :: "pyval \<Rightarrow> pstr list" where
  "bullet_text b =
     (case b of
        PDict d \<Rightarrow>
          (case dict_get d (str ''text'') of
             PStr txt \<Rightarrow> if strip txt \<noteq> [] then [strip txt] else []
           | _ \<Rightarrow> [])
      | _ \<Rightarrow> [])"

definition bullet_texts :: "(pstr \<times> pyval) list \<Rightarrow> py_error + pstr list" where
  "bullet_texts entry =
     (case py_iter (or_else (dict_get entry (str ''bullets'')) (PList [])) of
        Inl e \<Rightarrow> Inl e
      | Inr bullets \<Rightarrow> Inr (concat (map bullet_text bullets)))"

text \<open>\<^verbatim>\<open>[str(t).strip() for t in tools if str(t).strip()]\<close>.\<close>

definition tool_keywords :: "pylib \<Rightarrow> pyval \<Rightarrow> py_error + pstr list" where
  "tool_keywords U tools =
     (case py_iter tools of
        Inl e \<Rightarrow> Inl e
      | Inr ts \<Rightarrow> Inr (map (\<lambda>t. strip (py_str U t)) (filter (\<lambda>t. strip (py_str U t) \<noteq> []) ts)))"

section \<open>Converters to JSON Resume\<close>

definition convert_basics :: "pylib \<Rightarrow> pyval \<Rightarrow> pyval" where
  "convert_basics U v =
     (let basics = (case v of PDict d \<Rightarrow> d | _ \<Rightarrow> []);
          name = field_str U basics ''name'';
          email = field_str U basics ''email'';
          phone = field_str U basics ''phone'';
          location_str = field_str U basics ''location'';
          website = field_str U basics ''website'';
          linkedin = field_str U basics ''linkedin'';
          github = field_str U basics ''github'';
          (city, region) = parse_city_region (PStr location_str);
          profiles =
            concat (map (\<lambda>url. case parse_link_profile U (PStr url) of Some p \<Rightarrow> [p] | None \<Rightarrow> [])
                        [linkedin, github])
      in PDict
           ([(str ''name'', PStr name)]
            @ put ''email'' email
            @ put ''phone'' phone
            @ put ''url'' website
            @ (if city \<noteq> [] \<or> region \<noteq> []
               then [(str ''location'', PDict [(str ''city'', PStr city), (str ''region'', PStr region)])]
               else [])
            @ (if profiles \<noteq> [] then [(str ''profiles'', PList profiles)] else [])))"

text \<open>
  One pass of the loop of \<^verbatim>\<open>_convert_education\<close> over a dict entry: the dict \<^verbatim>\<open>edu\<close> it
  builds. The \<^verbatim>\<open>gpa\<close> field is read and not used.
\<close>

definition education_entry :: "pylib \<Rightarrow> (pstr \<times> pyval) list \<Rightarrow> (pstr \<times> pyval) list" where
  "education_entry U entry =
     (let name = field_str U entry ''name'';
          title = field_str U entry ''title'';
          dates = field_str U entry ''dates'';
          location_str = field_str U entry ''location'';
          (study_type, area) = split_degree_title (PStr title);
          (start_date, end_date) = parse_date_range U (PStr dates)
      in put ''institution'' name
         @ put ''area'' area
         @ put ''studyType'' study_type
         @ put ''startDate'' start_date
         @ put ''endDate'' end_date
         @ put ''location'' location_str)"

text \<open>\<^verbatim>\<open>for entry in entries or []\<close> with its \<^verbatim>\<open>isinstance(entry, dict)\<close> guard.\<close>

definition each_entry ::
  "((pstr \<times> pyval) list \<Rightarrow> py_error + (pstr \<times> pyval) list) \<Rightarrow> pyval \<Rightarrow> py_error + pyval list"
where
  "each_entry body entries =
     (case py_iter (or_else entries (PList [])) of
        Inl e \<Rightarrow> Inl e
      | Inr es \<Rightarrow>
          collect (\<lambda>entry. case entry of
                     PDict d \<Rightarrow>
                       (case body d of
                          Inl e \<Rightarrow> Inl e
                        | Inr out \<Rightarrow> Inr (if out \<noteq> [] then [PDict out] else []))
                   | _ \<Rightarrow> Inr []) es)"

definition convert_education :: "pylib \<Rightarrow> pyval \<Rightarrow> py_error + pyval list" where
  "convert_education U entries = each_entry (\<lambda>entry. Inr (education_entry U entry)) entries"

definition experience_entry :: "pylib \<Rightarrow> (pstr \<times> pyval) list \<Rightarrow> py_error + (pstr \<times> pyval) list" where
  "experience_entry U entry =
     (let company = field_str U entry ''name'';
          position = field_str U entry ''title'';
          location_str = field_str U entry ''location'';
          dates = field_str U entry ''dates'';
          tools = or_else (dict_get entry (str ''tools'')) (PList []);
          (start_date, end_date) = parse_date_range U (PStr dates)
      in case bullet_texts entry of
           Inl e \<Rightarrow> Inl e
         | Inr highlights \<Rightarrow>
             (case tool_keywords U tools of
                Inl e \<Rightarrow> Inl e
              | Inr keywords \<Rightarrow>
                  Inr (put ''name'' company
                       @ put ''position'' position
                       @ put ''location'' location_str
                       @ put ''startDate'' start_date
                       @ put ''endDate'' end_date
                       @ put_list ''highlights'' highlights
                       @ put_list ''keywords'' keywords)))"

definition convert_experience :: "pylib \<Rightarrow> pyval \<Rightarrow> py_error + pyval list" where
  "convert_experience U entries = each_entry (experience_entry U) entries"

definition project_entry :: "pylib \<Rightarrow> (pstr \<times> pyval) list \<Rightarrow> py_error + (pstr \<times> pyval) list" where
  "project_entry U entry =
     (let name = field_str U entry ''name'';
          dates = field_str U entry ''dates'';
          tools = or_else (dict_get entry (str ''tools'')) (PList []);
          (start_date, end_date) = parse_date_range U (PStr dates)
      in case bullet_texts entry of
           Inl e \<Rightarrow> Inl e
         | Inr highlights \<Rightarrow>
             (case tool_keywords U tools of
                Inl e \<Rightarrow> Inl e
              | Inr keywords \<Rightarrow>
                  Inr (put ''name'' name
                       @ put_list ''highlights'' highlights
                       @ put ''startDate'' start_date
                       @ put ''endDate'' end_date
                       @ put_list ''keywords'' keywords)))"

definition convert_projects :: "pylib \<Rightarrow> pyval \<Rightarrow> py_error + pyval list" where
  "convert_projects U entries = each_entry (project_entry U) entries"

text \<open>The keyword list \<^verbatim>\<open>_convert_skills\<close> computes for a value that is not \<^verbatim>\<open>None\<close>.\<close>

definition skill_keywords :: "pylib \<Rightarrow> pyval \<Rightarrow> pstr list" where
  "skill_keywords U value =
     (case value of
        PList vs \<Rightarrow> map (\<lambda>v. strip (py_str U v)) (filter (\<lambda>v. strip (py_str U v) \<noteq> []) vs)
      | _ \<Rightarrow> map strip (filter (\<lambda>s. strip s \<noteq> []) (split_char 44 (py_str U value))))"

text \<open>The loop of \<^verbatim>\<open>_convert_skills\<close> over \<^verbatim>\<open>skills.items()\<close>; a \<^verbatim>\<open>continue\<close> skips the item.\<close>

fun skills_loop :: "pylib \<Rightarrow> (pstr \<times> pyval) list \<Rightarrow> pyval list" where
  "skills_loop U [] = []"
| "skills_loop U ((key, value) # rest) =
     (if value = PNone then skills_loop U rest
      else
        let keywords = skill_keywords U value in
        if keywords = [] then skills_loop U rest
        else
          let name = title U (replace_char 95 32 key) in
          PDict [(str ''name'', PStr name), (str ''level'', PStr []),
                 (str ''keywords'', PList (map PStr keywords))]
            # skills_loop U rest)"

definition convert_skills :: "pylib \<Rightarrow> pyval \<Rightarrow> pyval list" where
  "convert_skills U v = (case v of PDict skills \<Rightarrow> skills_loop U skills | _ \<Rightarrow> [])"

section \<open>The public function\<close>

definition SCHEMA_URL :: pstr where
  "SCHEMA_URL = str ''https://raw.githubusercontent.com/jsonresume/resume-schema/v1.0.0/schema.json''"

text \<open>
  \<^verbatim>\<open>to_json_resume\<close>. Its argument is the outcome of \<^verbatim>\<open>json.loads\<close> on the input string:
  \<open>None\<close> when the string is not JSON and \<^verbatim>\<open>loads\<close> raises. Its result is the dict
  \<^verbatim>\<open>resume\<close>; \<^verbatim>\<open>json.dumps\<close>, which writes that dict out, is not modelled. \<^verbatim>\<open>data.get\<close>
  raises \<^verbatim>\<open>AttributeError\<close> when \<^verbatim>\<open>data\<close> is not a dict.
\<close>

definition to_json_resume :: "pylib \<Rightarrow> pyval option \<Rightarrow> py_error + pyval" where
  "to_json_resume U loaded =
     (case loaded of
        None \<Rightarrow> Inl JSONDecodeError
      | Some (PDict data) \<Rightarrow>
          (let basics_in = or_else (dict_get data (str ''basics'')) (PDict []);
               education_in = or_else (dict_get data (str ''education'')) (PList []);
               experience_in = or_else (dict_get data (str ''experience'')) (PList []);
               projects_in = or_else (dict_get data (str ''projects'')) (PList []);
               skills_in = or_else (dict_get data (str ''skills'')) (PDict []);
               basics_out = convert_basics U basics_in
           in case convert_education U education_in of
                Inl e \<Rightarrow> Inl e
              | Inr education_out \<Rightarrow>
                  (case convert_experience U experience_in of
                     Inl e \<Rightarrow> Inl e
                   | Inr work_out \<Rightarrow>
                       (case convert_projects U projects_in of
                          Inl e \<Rightarrow> Inl e
                        | Inr projects_out \<Rightarrow>
                            Inr (PDict
                                   [(str ''$schema'', PStr SCHEMA_URL),
                                    (str ''basics'', basics_out),
                                    (str ''work'', PList work_out),
                                    (str ''education'', PList education_out),
                                    (str ''skills'', PList (convert_skills U skills_in)),
                                    (str ''projects'', PList projects_out)]))))
      | Some _ \<Rightarrow> Inl AttributeError)"

section \<open>Notions the statements use\<close>

text \<open>\<^verbatim>\<open>d.join(ps)\<close> for a one-character \<open>d\<close>: the inverse of a split.\<close>

fun join :: "nat \<Rightarrow> pstr list \<Rightarrow> pstr" where
  "join d [] = []"
| "join d [p] = p"
| "join d (p # q # ps) = p @ d # join d (q # ps)"

text \<open>
  A library that knows ASCII only, to run the model on inputs made of ASCII text, where
  no field of it is consulted.
\<close>

definition ascii_lib :: pylib where
  "ascii_lib =
     \<lparr>uni_alnum = (\<lambda>c. False), uni_decimal = (\<lambda>c. False), uni_lower = (\<lambda>s. s),
      uni_title = (\<lambda>s. s), uni_printable = (\<lambda>c. False)\<rparr>"


text \<open>
  "Every present field is non-empty": a value of the output document, found at the path
  \<open>p\<close> of keys, is a string, a list or an object; a string is not empty unless its path
  is one of the exempt paths \<open>X\<close>; a list is not empty and neither is an object; and the
  same holds of every element and of every field (an element of a list has the path of
  the list). A null, a number and a boolean never qualify.
\<close>

fun fields_ok :: "(pstr list \<Rightarrow> bool) \<Rightarrow> pstr list \<Rightarrow> pyval \<Rightarrow> bool"
  and all_ok :: "(pstr list \<Rightarrow> bool) \<Rightarrow> pstr list \<Rightarrow> pyval list \<Rightarrow> bool"
  and items_ok :: "(pstr list \<Rightarrow> bool) \<Rightarrow> pstr list \<Rightarrow> (pstr \<times> pyval) list \<Rightarrow> bool"
where
  "fields_ok X p PNone = False"
| "fields_ok X p (PBool b) = False"
| "fields_ok X p (PInt i) = False"
| "fields_ok X p (PFloat nz t) = False"
| "fields_ok X p (PStr s) = (X p \<or> s \<noteq> [])"
| "fields_ok X p (PList xs) = (xs \<noteq> [] \<and> all_ok X p xs)"
| "fields_ok X p (PDict d) = (d \<noteq> [] \<and> items_ok X p d)"
| "all_ok X p [] = True"
| "all_ok X p (x # xs) = (fields_ok X p x \<and> all_ok X p xs)"
| "items_ok X p [] = True"
| "items_ok X p ((k, v) # kvs) = (fields_ok X (p @ [k]) v \<and> items_ok X p kvs)"

text \<open>The paths of the output at which the writer does emit an empty string.\<close>

definition may_be_empty :: "pstr list \<Rightarrow> bool" where
  "may_be_empty p =
     (p = [str ''basics'', str ''name''] \<or>
      p = [str ''basics'', str ''location'', str ''region''] \<or>
      p = [str ''basics'', str ''profiles'', str ''username''] \<or>
      p = [str ''skills'', str ''name''] \<or>
      p = [str ''skills'', str ''level''])"

text \<open>The exemption the specification grants: \<^verbatim>\<open>basics.name\<close> alone.\<close>

definition only_name :: "pstr list \<Rightarrow> bool" where
  "only_name p = (p = [str ''basics'', str ''name''])"

text \<open>The leftmost match in \<open>s\<close>: where it starts and how long it is.\<close>

fun first_match :: "(pstr \<Rightarrow> nat option) \<Rightarrow> pstr \<Rightarrow> (nat \<times> nat) option" where
  "first_match m [] = None"
| "first_match m (c # cs) =
     (case m (c # cs) of
        Some (Suc n) \<Rightarrow> Some (0, Suc n)
      | _ \<Rightarrow> map_option (\<lambda>(i, n). (Suc i, n)) (first_match m cs))"

text \<open>
  The last non-empty piece of a path between slashes, said without a split: leave the
  slashes at the end out, then take the longest suffix that has no slash. It is empty
  when the path holds nothing but slashes.
\<close>

definition trailing_segment :: "pstr \<Rightarrow> pstr" where
  "trailing_segment path = rev (takeWhile (\<lambda>c. c \<noteq> 47) (dropWhile (\<lambda>c. c = 47) (rev path)))"

text \<open>
  What \<^verbatim>\<open>_parse_date_range\<close> computes when the split is at the dash family alone, the
  separators that the comment beside \<^verbatim>\<open>_DATE_SPLIT_RE\<close> lists: the same body with that one
  change. It is not the code; it shows what the code was written to do.
\<close>

definition parse_date_range_dashes :: "pylib \<Rightarrow> pyval \<Rightarrow> pstr \<times> pstr" where
  "parse_date_range_dashes U v =
     (case v of
        PStr dates0 \<Rightarrow>
          (let dates = strip dates0 in
           if dates = [] then ([], [])
           else
             let parts = re_split (sep_match dash_family) dates in
             if parts = [] then ([], [])
             else
               let start_raw = strip (hd parts);
                   end_raw = (if 1 < length parts then strip (parts ! 1) else []);
                   (start_y, start_m) = parse_month_year U (PStr start_raw);
                   start_iso = (if start_y \<noteq> [] \<and> start_m \<noteq> [] then start_y @ [45] @ start_m else []);
                   end_iso =
                     (if end_raw \<noteq> [] \<and> \<not> isearch (str ''present'') end_raw
                      then (let (end_y, end_m) = parse_month_year U (PStr end_raw) in
                            if end_y \<noteq> [] \<and> end_m \<noteq> [] then end_y @ [45] @ end_m else [])
                      else [])
               in (start_iso, end_iso))
      | _ \<Rightarrow> ([], []))"



text \<open>A parsed resume to run the assembler on.\<close>

definition sample_resume :: pyval where
  "sample_resume =
     PDict [(str ''basics'', PDict [(str ''name'', PStr (str ''Ada'')), (str ''location'', PStr (str ''Remote''))]),
            (str ''experience'', PList [PDict [(str ''name'', PStr (str ''Acme''))]]),
            (str ''skills'', PDict [(str ''tools'', PList [PStr (str ''Git'')])])]"

section \<open>Running the model\<close>

lemmas string_defs =
  str_def isspace_def strip_def split_char_def split_ws_def replace_char_def starts_with_def
  split1_last_def ascii_def ascii_lower_def ascii_upper_def ascii_upper_letter_def
  ascii_lower_letter_def ascii_digit_def is_word_def is_decimal_def lower_def title_def
  imatch_def is_printable_def repr_char_def repr_str_def

lemmas regex_defs = sep_match_def in_match_def DATE_SPLIT_RE_split_def DATE_SPLIT_class_def

lemmas date_defs = parse_date_range_def parse_month_year_def MONTH_MAP_def

lemmas entry_defs =
  education_entry_def experience_entry_def project_entry_def field_str_def or_else_def
  dict_get_def bullet_texts_def bullet_text_def tool_keywords_def put_def put_list_def
  split_degree_title_def

lemmas convert_defs =
  to_json_resume_def convert_basics_def convert_education_def convert_experience_def
  convert_projects_def convert_skills_def each_entry_def skill_keywords_def
  parse_city_region_def parse_link_profile_def

lemma str_eq_iff [simp]: "str a = str b \<longleftrightarrow> a = b"
  by (simp add: str_def inj_map_eq_map inj_on_def)

lemma str_empty_iff [simp]: "str a = [] \<longleftrightarrow> a = []"
  by (simp add: str_def)

section \<open>Facts about the string functions\<close>

lemma split_when_nonempty: "split_when P s \<noteq> []"
  by (induction s) (auto split: list.splits)

lemma join_Cons: "ps \<noteq> [] \<Longrightarrow> join d (p # ps) = p @ d # join d ps"
  by (cases ps) auto

lemma join_split_when: "join d (split_when (\<lambda>c. c = d) s) = s"
proof (induction s)
  case Nil
  show ?case by simp
next
  case (Cons c cs)
  show ?case
  proof (cases "c = d")
    case True
    then show ?thesis
      using Cons split_when_nonempty [of "\<lambda>c. c = d" cs] by (simp add: join_Cons)
  next
    case False
    obtain p ps where e: "split_when (\<lambda>c. c = d) cs = p # ps"
      using split_when_nonempty [of "\<lambda>c. c = d" cs]
      by (cases "split_when (\<lambda>c. c = d) cs") auto
    show ?thesis using False Cons e by (cases ps) auto
  qed
qed

lemma split_when_pieces: "list_all (\<lambda>p. \<not> list_ex P p) (split_when P s)"
  by (induction s) (auto split: list.splits)

lemma split_char_pieces: "list_all (\<lambda>p. d \<notin> set p) (split_char d s)"
  using split_when_pieces [of "\<lambda>c. c = d" s]
  by (simp add: split_char_def list_all_iff list_ex_iff)

lemma re_split_nonempty: "re_split m s \<noteq> []"
  by (induction m s rule: re_split.induct) (auto split: option.splits nat.splits list.splits)

lemma strip_filter_swap:
  "map strip (filter (\<lambda>p. strip p \<noteq> []) xs) = filter (\<lambda>p. p \<noteq> []) (map strip xs)"
  by (simp add: filter_map o_def)

lemma first_two_cases:
  "(if parts = [] then ([], [])
    else if length parts = 1 then (parts ! 0, [])
    else (parts ! 0, parts ! 1)) =
   (case parts of [] \<Rightarrow> ([], []) | [a] \<Rightarrow> (a, []) | a # b # rest \<Rightarrow> (a, b))"
  by (cases parts; cases "tl parts") auto

section \<open>The date-range parser\<close>

lemma sep_match_None_head:
  assumes "sep_match C (c # cs) = None"
  shows "\<not> C c"
proof -
  let ?ks = "rev [0 ..< Suc (length (takeWhile isspace (c # cs)))]"
  let ?F = "filter (\<lambda>k. k < length (c # cs) \<and> C ((c # cs) ! k)) ?ks"
  have "(case ?F of [] \<Rightarrow> None
         | k # _ \<Rightarrow> Some (Suc (k + length (takeWhile isspace (drop (Suc k) (c # cs)))))) = None"
    using assms unfolding sep_match_def .
  then have "?F = []" by (cases ?F) simp_all
  then have "\<forall>k \<in> set ?ks. \<not> (k < length (c # cs) \<and> C ((c # cs) ! k))"
    unfolding filter_empty_conv .
  moreover have "0 \<in> set ?ks" unfolding set_rev set_upt by simp
  ultimately have "\<not> (0 < length (c # cs) \<and> C ((c # cs) ! 0))" by blast
  then show ?thesis by simp
qed

lemma sep_match_positive: "sep_match C s \<noteq> Some 0"
  by (simp add: sep_match_def split: list.splits)

lemma re_split_pieces:
  "p \<in> set (re_split (sep_match C) s) \<Longrightarrow> x \<in> set p \<Longrightarrow> \<not> C x \<and> x \<in> set s"
proof (induction s arbitrary: p x rule: length_induct)
  case (1 s)
  show ?case
  proof (cases s)
    case Nil
    then show ?thesis using 1 by simp
  next
    case (Cons c cs)
    show ?thesis
    proof (cases "sep_match C (c # cs)")
      case None
      have nc: "\<not> C c" using None by (rule sep_match_None_head)
      obtain q qs where q: "re_split (sep_match C) cs = q # qs"
        using re_split_nonempty [of "sep_match C" cs] by (cases "re_split (sep_match C) cs") auto
      have ih: "\<And>p' x'. p' \<in> set (q # qs) \<Longrightarrow> x' \<in> set p' \<Longrightarrow> \<not> C x' \<and> x' \<in> set cs"
        using 1(1) Cons q by auto
      have hq: "\<forall>x' \<in> set q. \<not> C x' \<and> x' \<in> set cs" using ih [of q] by simp
      have hqs: "p \<in> set qs \<Longrightarrow> \<not> C x \<and> x \<in> set cs" using ih [of p x] 1(3) by simp
      from 1(2) have "p = c # q \<or> p \<in> set qs" using Cons None q by auto
      then show ?thesis using hq hqs nc 1(3) Cons by auto
    next
      case (Some n)
      then obtain k where k: "n = Suc k"
        using sep_match_positive [of C "c # cs"] by (cases n) auto
      have len: "length (drop k cs) < length s" using Cons by simp
      have ih: "\<And>p' x'. p' \<in> set (re_split (sep_match C) (drop k cs)) \<Longrightarrow> x' \<in> set p' \<Longrightarrow>
                 \<not> C x' \<and> x' \<in> set (drop k cs)"
        using 1(1) len by blast
      from 1(2) have "p = [] \<or> p \<in> set (re_split (sep_match C) (drop k cs))"
        using Cons Some k by auto
      then show ?thesis using ih 1(3) Cons by (auto dest: in_set_dropD)
    qed
  qed
qed

lemma strip_subset: "set (strip s) \<subseteq> set s"
  unfolding strip_def by (auto dest!: set_dropWhileD)

lemma split_when_subset: "p \<in> set (split_when P s) \<Longrightarrow> set p \<subseteq> set s"
proof (induction s arbitrary: p)
  case Nil
  then show ?case by simp
next
  case (Cons c cs)
  obtain q qs where q: "split_when P cs = q # qs"
    using split_when_nonempty [of P cs] by (cases "split_when P cs") auto
  show ?case
  proof (cases "P c")
    case True
    then have "p = [] \<or> p \<in> set (split_when P cs)" using Cons.prems by auto
    then show ?thesis using Cons.IH by auto
  next
    case False
    then have "p = c # q \<or> p \<in> set qs" using Cons.prems q by auto
    moreover have "set q \<subseteq> set cs" using Cons.IH [of q] q by simp
    moreover have "p \<in> set qs \<Longrightarrow> set p \<subseteq> set cs" using Cons.IH [of p] q by simp
    ultimately show ?thesis by auto
  qed
qed

lemma is_word_low: "c < 45 \<Longrightarrow> \<not> is_word U c"
  by (simp add: is_word_def ascii_upper_letter_def ascii_lower_letter_def ascii_digit_def)

lemma month_map_empty: "map_of MONTH_MAP [] = None"
  by (simp add: MONTH_MAP_def str_def)

lemma lower_empty: "lower U [] = []"
  by (simp add: lower_def ascii_def)

lemma parse_month_year_low:
  assumes "\<forall>c \<in> set t. c < 45"
  shows "parse_month_year U (PStr t) = ([], [])"
proof -
  let ?tokens = "split_ws (replace_char 44 32 (strip t))"
  have "filter (is_word U) (hd ?tokens) = []" if ne: "?tokens \<noteq> []"
  proof -
    have "hd ?tokens \<in> set (split_when isspace (replace_char 44 32 (strip t)))"
      using ne hd_in_set [OF ne] by (simp add: split_ws_def)
    then have "set (hd ?tokens) \<subseteq> set (replace_char 44 32 (strip t))"
      by (rule split_when_subset)
    moreover have "\<forall>c \<in> set (replace_char 44 32 (strip t)). c < 45"
      using assms strip_subset [of t] by (auto simp add: replace_char_def)
    ultimately have "\<forall>c \<in> set (hd ?tokens). c < 45" by blast
    then show ?thesis by (auto simp add: filter_empty_conv is_word_low)
  qed
  then have "length ?tokens < 2 \<or> lower U (filter (is_word U) (hd ?tokens)) = []"
    by (cases "?tokens = []") (auto simp add: lower_empty)
  then show ?thesis
    by (auto simp add: parse_month_year_def Let_def month_map_empty split: option.splits)
qed

lemma class_low: "\<not> DATE_SPLIT_class c \<Longrightarrow> c \<le> 8212 \<Longrightarrow> c < 45"
  by (simp add: DATE_SPLIT_class_def)

text \<open>
  C1 (code defect). The specification asks that an input of the form "Mon YYYY - Mon YYYY" gives
  two valid YYYY-MM strings. The character class of \<^verbatim>\<open>_DATE_SPLIT_RE\<close> is a range that
  holds every ASCII letter and digit, so the split cuts at each of them and no part keeps
  a letter of a month name. For every input whose code points are all at most U+2014,
  which every input of that form is, the parser returns \<^verbatim>\<open>("", "")\<close>, whatever the
  Unicode tables hold: no date at all.
\<close>

theorem parse_date_range_yields_no_date:
  assumes "list_all (\<lambda>c. c \<le> 8212) dates"
  shows "parse_date_range U (PStr dates) = ([], [])"
proof -
  let ?dates = "strip dates"
  let ?parts = "DATE_SPLIT_RE_split ?dates"
  have small: "\<forall>c \<in> set ?dates. c \<le> 8212"
    using assms strip_subset [of dates] by (auto simp add: list_all_iff)
  have piece: "\<forall>c \<in> set (strip p). c < 45" if "p \<in> set ?parts" for p
  proof
    fix c assume "c \<in> set (strip p)"
    then have "c \<in> set p" using strip_subset by blast
    then have "\<not> DATE_SPLIT_class c \<and> c \<in> set ?dates"
      using that re_split_pieces [of p DATE_SPLIT_class ?dates c]
      by (simp add: DATE_SPLIT_RE_split_def)
    then show "c < 45" using small class_low by blast
  qed
  have ne: "?parts \<noteq> []" by (simp add: DATE_SPLIT_RE_split_def re_split_nonempty)
  have first: "parse_month_year U (PStr (strip (hd ?parts))) = ([], [])"
    using piece [of "hd ?parts"] ne by (intro parse_month_year_low) simp
  have second: "parse_month_year U (PStr (strip (?parts ! 1))) = ([], [])" if "1 < length ?parts"
    using piece [of "?parts ! 1"] that by (intro parse_month_year_low) simp
  show ?thesis
    using first second
    by (auto simp add: parse_date_range_def Let_def split: prod.splits)
qed

theorem parse_date_range_yields_no_date_witness:
  "list_all (\<lambda>c. c \<le> 8212) (str ''Jan 2020 - Dec 2021'')
   \<and> parse_date_range ascii_lib (PStr (str ''Jan 2020 - Dec 2021'')) = ([], [])"
proof -
  have low: "list_all (\<lambda>c. c \<le> 8212) (str ''Jan 2020 - Dec 2021'')"
    by (simp add: str_def)
  show ?thesis
    using parse_date_range_yields_no_date [OF low, of ascii_lib] low by blast
qed

text \<open>
  C2 (code defect, the same one). The docstring of \<^verbatim>\<open>_parse_date_range\<close> and the
  specification give "Jun 2023 - Aug 2023" the dates 2023-06 and 2023-08, and
  "Jan 2024 - Present" the start 2024-01 with no end. The code returns \<^verbatim>\<open>("", "")\<close> for both inputs. The body of the
  function, run with a split at the dash family alone, gives exactly the documented
  results: the character class of the pattern is the whole of the defect.
\<close>

theorem parse_date_range_docstring_examples_empty:
  "parse_date_range U (PStr (str ''Jun 2023 - Aug 2023'')) = ([], []) \<and>
   parse_date_range U (PStr (str ''Jan 2024 - Present'')) = ([], []) \<and>
   parse_date_range_dashes U (PStr (str ''Jun 2023 - Aug 2023'')) = (str ''2023-06'', str ''2023-08'') \<and>
   parse_date_range_dashes U (PStr (str ''Jan 2024 - Present'')) = (str ''2024-01'', [])"
  by (simp add: parse_date_range_dashes_def dash_family_def date_defs regex_defs string_defs)

text \<open>
  Neither the code nor its body with the documented separators compares the two dates: a
  range written backwards keeps its order.
\<close>

lemma parse_date_range_dashes_order_unchecked:
  "parse_date_range_dashes U (PStr (str ''Dec 2021 - Jan 2020'')) = (str ''2021-12'', str ''2020-01'')"
  by (simp add: parse_date_range_dashes_def dash_family_def date_defs regex_defs string_defs)

text \<open>
  C3 (code defect, the same one). The specification asks that only a hyphen, an en dash or an em
  dash separates the two dates. "Jun 2023" holds none of the three, and the pattern of the
  code still cuts it at every letter and digit, into eight empty parts, so the start date
  is lost; a split at the dash family alone leaves the input whole.
\<close>

theorem date_split_cuts_at_letters_and_digits:
  "DATE_SPLIT_RE_split (str ''Jun 2023'') = [[], [], [], [], [], [], [], []] \<and>
   parse_date_range U (PStr (str ''Jun 2023'')) = ([], []) \<and>
   re_split (sep_match dash_family) (str ''Jun 2023'') = [str ''Jun 2023'']"
  by (simp add: date_defs regex_defs string_defs dash_family_def)

section \<open>Errors of the conversion\<close>

text \<open>
  C4 (code defect). The specification asks that a wrongly-typed section value never makes the
  conversion raise. \<^verbatim>\<open>_convert_basics\<close> and \<^verbatim>\<open>_convert_skills\<close> guard their argument with
  \<^verbatim>\<open>isinstance\<close>; \<^verbatim>\<open>_convert_education\<close> iterates over \<^verbatim>\<open>entries or []\<close> unguarded, so the
  parsed record \<^verbatim>\<open>{"education": 5}\<close> raises \<^verbatim>\<open>TypeError\<close>. So does a wrongly-typed field
  of an entry: \<^verbatim>\<open>{"experience": [{"tools": 5}]}\<close>.
\<close>

theorem to_json_resume_education_number_raises:
  "to_json_resume U (Some (PDict [(str ''education'', PInt 5)])) = Inl TypeError
   \<and> to_json_resume U
        (Some (PDict [(str ''experience'', PList [PDict [(str ''tools'', PInt 5)]])])) =
       Inl TypeError"
  by (simp add: convert_defs entry_defs date_defs strip_def Let_def)

section \<open>The location splitter\<close>

lemma parse_city_region_cases:
  "parse_city_region (PStr location) =
     (case filter (\<lambda>p. p \<noteq> []) (map strip (split_char 44 location)) of
        [] \<Rightarrow> ([], [])
      | [city] \<Rightarrow> (city, [])
      | city # region # rest \<Rightarrow> (city, region))"
  unfolding parse_city_region_def Let_def pyval.case first_two_cases strip_filter_swap ..

text \<open>
  C9. For a string, \<^verbatim>\<open>_parse_city_region\<close> splits at the commas (the pieces hold no comma
  and joined by commas they give the input back), trims every piece and drops the empty
  ones; no piece left gives \<^verbatim>\<open>("", "")\<close>, one piece gives \<^verbatim>\<open>(piece, "")\<close>, two or more
  give the first two and the rest is dropped. Any input that is not a string gives
  \<^verbatim>\<open>("", "")\<close>. "North Brunswick, NJ" gives ("North Brunswick", "NJ") and "Remote" gives
  ("Remote", "").
\<close>

theorem parse_city_region_splits_on_commas:
  "parse_city_region (PStr location) =
     (case filter (\<lambda>p. p \<noteq> []) (map strip (split_char 44 location)) of
        [] \<Rightarrow> ([], [])
      | [city] \<Rightarrow> (city, [])
      | city # region # rest \<Rightarrow> (city, region))
   \<and> join 44 (split_char 44 location) = location
   \<and> list_all (\<lambda>p. 44 \<notin> set p) (split_char 44 location)
   \<and> parse_city_region PNone = ([], [])
   \<and> parse_city_region (PBool b) = ([], [])
   \<and> parse_city_region (PInt i) = ([], [])
   \<and> parse_city_region (PFloat nz t) = ([], [])
   \<and> parse_city_region (PList xs) = ([], [])
   \<and> parse_city_region (PDict d) = ([], [])
   \<and> parse_city_region (PStr (str ''North Brunswick, NJ'')) = (str ''North Brunswick'', str ''NJ'')
   \<and> parse_city_region (PStr (str ''Remote'')) = (str ''Remote'', [])"
proof -
  have split: "join 44 (split_char 44 location) = location"
    by (simp add: split_char_def join_split_when)
  have other:
    "parse_city_region PNone = ([], [])" "parse_city_region (PBool b) = ([], [])"
    "parse_city_region (PInt i) = ([], [])" "parse_city_region (PFloat nz t) = ([], [])"
    "parse_city_region (PList xs) = ([], [])" "parse_city_region (PDict d) = ([], [])"
    by (simp_all add: parse_city_region_def)
  have ex1: "parse_city_region (PStr (str ''North Brunswick, NJ'')) = (str ''North Brunswick'', str ''NJ'')"
    by (simp add: parse_city_region_def string_defs)
  have ex2: "parse_city_region (PStr (str ''Remote'')) = (str ''Remote'', [])"
    by (simp add: parse_city_region_def string_defs)
  show ?thesis
    using parse_city_region_cases [of location] split split_char_pieces [of 44 location] other ex1 ex2
    by blast
qed

section \<open>The skills categorizer\<close>

lemma skills_loop_eq:
  "skills_loop U skills =
     map (\<lambda>(key, value).
            PDict [(str ''name'', PStr (title U (replace_char 95 32 key))),
                   (str ''level'', PStr []),
                   (str ''keywords'', PList (map PStr (skill_keywords U value)))])
         (filter (\<lambda>(key, value). value \<noteq> PNone \<and> skill_keywords U value \<noteq> []) skills)"
  by (induction U skills rule: skills_loop.induct) (simp_all add: Let_def)

lemma skill_keywords_eq:
  "skill_keywords U value =
     (case value of
        PList vs \<Rightarrow> filter (\<lambda>s. s \<noteq> []) (map (\<lambda>v. strip (py_str U v)) vs)
      | _ \<Rightarrow> filter (\<lambda>s. s \<noteq> []) (map strip (split_char 44 (py_str U value))))"
  by (simp add: skill_keywords_def filter_map o_def split: pyval.splits)

text \<open>
  C8, as the specification states it, fails: a value that is \<^verbatim>\<open>None\<close> is not stringified
  and split like any other scalar. The rule for a scalar gives \<^verbatim>\<open>None\<close> the one keyword
  "None", so \<^verbatim>\<open>{"tools": null}\<close> would yield a category; the guard
  \<^verbatim>\<open>if value is None: continue\<close> skips the key and the output is empty.
\<close>

theorem convert_skills_none_value_skipped:
  "convert_skills ascii_lib (PDict [(str ''tools'', PNone)]) = []
   \<and> filter (\<lambda>s. s \<noteq> []) (map strip (split_char 44 (py_str ascii_lib PNone))) = [str ''None'']"
  by (simp add: convert_skills_def string_defs)

text \<open>
  C8, amended. For a mapping, \<^verbatim>\<open>_convert_skills\<close> skips every key whose value is \<^verbatim>\<open>None\<close>
  and gives one category for each other key whose keyword list is not empty, in the order
  of the keys. The keywords of a list are its elements, each stringified and trimmed,
  without the empty ones; the keywords of any other value are the pieces of its string
  between commas, trimmed, without the empty ones. Stringified means \<^verbatim>\<open>str()\<close>: a string is
  itself, and \<^verbatim>\<open>None\<close>, a boolean, a number, a list and a dict are written as Python
  writes them. The name is the key with each underscore replaced by a space, title-cased,
  and the level is the empty string. \<^verbatim>\<open>{"programming_languages": ["Python", " "]}\<close> gives the
  one category Programming Languages with the keyword Python.
\<close>

theorem convert_skills_categories:
  "convert_skills U (PDict skills) =
     map (\<lambda>(key, value).
            PDict [(str ''name'', PStr (title U (replace_char 95 32 key))),
                   (str ''level'', PStr []),
                   (str ''keywords'', PList (map PStr (skill_keywords U value)))])
         (filter (\<lambda>(key, value). value \<noteq> PNone \<and> skill_keywords U value \<noteq> []) skills)
   \<and> skill_keywords U value =
        (case value of
           PList vs \<Rightarrow> filter (\<lambda>s. s \<noteq> []) (map (\<lambda>v. strip (py_str U v)) vs)
         | _ \<Rightarrow> filter (\<lambda>s. s \<noteq> []) (map strip (split_char 44 (py_str U value))))
   \<and> py_str U (PStr s) = s
   \<and> py_str U PNone = str ''None''
   \<and> py_str U (PBool True) = str ''True''
   \<and> py_str U (PBool False) = str ''False''
   \<and> py_str U (PInt 2024) = str ''2024''
   \<and> py_str U (PInt (- 12)) = str ''-12''
   \<and> py_str U (PFloat nz txt) = txt
   \<and> py_str U (PList [PInt 1, PStr (str ''a''), PList []]) = str ''[1, 'a', []]''
   \<and> py_str U (PDict [(str ''a'', PInt 1), (str ''b'', PBool False)]) = str ''{'a': 1, 'b': False}''
   \<and> convert_skills U
        (PDict [(str ''programming_languages'', PList [PStr (str ''Python''), PStr (str '' '')])]) =
      [PDict [(str ''name'', PStr (str ''Programming Languages'')),
              (str ''level'', PStr []),
              (str ''keywords'', PList [PStr (str ''Python'')])]]
   \<and> convert_skills U
        (PDict [(str ''n'', PList [PInt 1, PBool True, PNone, PFloat True (str ''2.5'')])]) =
      [PDict [(str ''name'', PStr (str ''N'')),
              (str ''level'', PStr []),
              (str ''keywords'',
               PList [PStr (str ''1''), PStr (str ''True''), PStr (str ''None''), PStr (str ''2.5'')])]]
   \<and> convert_skills U (PDict [(str ''years'', PInt 5)]) =
      [PDict [(str ''name'', PStr (str ''Years'')),
              (str ''level'', PStr []),
              (str ''keywords'', PList [PStr (str ''5'')])]]
   \<and> convert_skills U (PDict [(str ''3d_tools'', PStr (str '' Git, Docker ,, ''))]) =
      [PDict [(str ''name'', PStr (str ''3D Tools'')),
              (str ''level'', PStr []),
              (str ''keywords'', PList [PStr (str ''Git''), PStr (str ''Docker'')])]]
   \<and> convert_skills U (PDict [(str ''x'', PDict [(str ''a'', PInt 1), (str ''b'', PInt 2)])]) =
      [PDict [(str ''name'', PStr (str ''X'')),
              (str ''level'', PStr []),
              (str ''keywords'', PList [PStr (str ''{'a': 1''), PStr (39 # str ''b': 2}'')])]]
   \<and> convert_skills U
        (PDict [(str ''b'', PStr (str ''x'')), (str ''skip'', PNone), (str ''none'', PList []),
                (str ''blank'', PStr (str '' , '')), (str ''a'', PStr (str ''y''))]) =
      [PDict [(str ''name'', PStr (str ''B'')), (str ''level'', PStr []),
              (str ''keywords'', PList [PStr (str ''x'')])],
       PDict [(str ''name'', PStr (str ''A'')), (str ''level'', PStr []),
              (str ''keywords'', PList [PStr (str ''y'')])]]"
proof -
  have loop: "convert_skills U (PDict skills) = skills_loop U skills"
    by (simp add: convert_skills_def)
  have strs:
    "py_str U (PStr s) = s" "py_str U PNone = str ''None''"
    "py_str U (PBool True) = str ''True''" "py_str U (PBool False) = str ''False''"
    "py_str U (PFloat nz txt) = txt"
    by simp_all
  have ints: "py_str U (PInt 2024) = str ''2024''" "py_str U (PInt (- 12)) = str ''-12''"
    by (simp_all add: nat_digits.simps str_def)
  have conts:
    "py_str U (PList [PInt 1, PStr (str ''a''), PList []]) = str ''[1, 'a', []]''"
    "py_str U (PDict [(str ''a'', PInt 1), (str ''b'', PBool False)]) = str ''{'a': 1, 'b': False}''"
    by (simp_all add: nat_digits.simps string_defs)
  have ex1:
    "convert_skills U
        (PDict [(str ''programming_languages'', PList [PStr (str ''Python''), PStr (str '' '')])]) =
      [PDict [(str ''name'', PStr (str ''Programming Languages'')),
              (str ''level'', PStr []),
              (str ''keywords'', PList [PStr (str ''Python'')])]]"
    by (simp add: convert_skills_def skill_keywords_def string_defs)
  have ex2:
    "convert_skills U
        (PDict [(str ''n'', PList [PInt 1, PBool True, PNone, PFloat True (str ''2.5'')])]) =
      [PDict [(str ''name'', PStr (str ''N'')),
              (str ''level'', PStr []),
              (str ''keywords'',
               PList [PStr (str ''1''), PStr (str ''True''), PStr (str ''None''), PStr (str ''2.5'')])]]"
    by (simp add: convert_skills_def skill_keywords_def nat_digits.simps string_defs)
  have ex3:
    "convert_skills U (PDict [(str ''years'', PInt 5)]) =
      [PDict [(str ''name'', PStr (str ''Years'')),
              (str ''level'', PStr []),
              (str ''keywords'', PList [PStr (str ''5'')])]]"
    by (simp add: convert_skills_def skill_keywords_def nat_digits.simps string_defs)
  have ex4:
    "convert_skills U (PDict [(str ''3d_tools'', PStr (str '' Git, Docker ,, ''))]) =
      [PDict [(str ''name'', PStr (str ''3D Tools'')),
              (str ''level'', PStr []),
              (str ''keywords'', PList [PStr (str ''Git''), PStr (str ''Docker'')])]]"
    by (simp add: convert_skills_def skill_keywords_def string_defs)
  have ex5:
    "convert_skills U (PDict [(str ''x'', PDict [(str ''a'', PInt 1), (str ''b'', PInt 2)])]) =
      [PDict [(str ''name'', PStr (str ''X'')),
              (str ''level'', PStr []),
              (str ''keywords'', PList [PStr (str ''{'a': 1''), PStr (39 # str ''b': 2}'')])]]"
    by (simp add: convert_skills_def skill_keywords_def nat_digits.simps string_defs)
  have ex6:
    "convert_skills U
        (PDict [(str ''b'', PStr (str ''x'')), (str ''skip'', PNone), (str ''none'', PList []),
                (str ''blank'', PStr (str '' , '')), (str ''a'', PStr (str ''y''))]) =
      [PDict [(str ''name'', PStr (str ''B'')), (str ''level'', PStr []),
              (str ''keywords'', PList [PStr (str ''x'')])],
       PDict [(str ''name'', PStr (str ''A'')), (str ''level'', PStr []),
              (str ''keywords'', PList [PStr (str ''y'')])]]"
    by (simp add: convert_skills_def skill_keywords_def string_defs)
  show ?thesis
    unfolding loop
    using skills_loop_eq [of U skills] skill_keywords_eq [of U "value"] strs ints conts
      ex1 ex2 ex3 ex4 ex5 ex6
    by blast
qed

section \<open>What the converters emit\<close>
















section \<open>The shape of the output document\<close>

lemma all_ok_append: "all_ok X p (xs @ ys) = (all_ok X p xs \<and> all_ok X p ys)"
  by (induction xs) auto

lemma items_ok_append: "items_ok X p (xs @ ys) = (items_ok X p xs \<and> items_ok X p ys)"
  by (induction xs) auto

lemma items_ok_put: "items_ok X p (put k s)"
  by (simp add: put_def)

lemma all_ok_strs: "list_all (\<lambda>s. s \<noteq> []) xs \<Longrightarrow> all_ok X p (map PStr xs)"
  by (induction xs) auto

lemma items_ok_put_list: "list_all (\<lambda>s. s \<noteq> []) xs \<Longrightarrow> items_ok X p (put_list k xs)"
  by (simp add: put_list_def all_ok_strs)

lemma bullet_texts_nonempty: "bullet_texts entry = Inr hs \<Longrightarrow> list_all (\<lambda>s. s \<noteq> []) hs"
  unfolding bullet_texts_def
  by (auto simp add: bullet_text_def list_all_iff split: sum.splits pyval.splits if_splits)

lemma tool_keywords_nonempty: "tool_keywords U tools = Inr ks \<Longrightarrow> list_all (\<lambda>s. s \<noteq> []) ks"
  unfolding tool_keywords_def
  by (auto simp add: list_all_iff split: sum.splits)

lemma education_entry_ok: "items_ok X p (education_entry U entry)"
  by (simp add: education_entry_def Let_def items_ok_append items_ok_put split: prod.splits)

lemma experience_entry_ok: "experience_entry U entry = Inr kv \<Longrightarrow> items_ok X p kv"
  unfolding experience_entry_def Let_def
  by (auto simp add: items_ok_append items_ok_put items_ok_put_list
        dest!: bullet_texts_nonempty tool_keywords_nonempty split: prod.splits sum.splits)

lemma project_entry_ok: "project_entry U entry = Inr kv \<Longrightarrow> items_ok X p kv"
  unfolding project_entry_def Let_def
  by (auto simp add: items_ok_append items_ok_put items_ok_put_list
        dest!: bullet_texts_nonempty tool_keywords_nonempty split: prod.splits sum.splits)

lemma collect_ok:
  "collect (\<lambda>entry. case entry of
              PDict d \<Rightarrow> (case body d of Inl e \<Rightarrow> Inl e
                          | Inr out \<Rightarrow> Inr (if out \<noteq> [] then [PDict out] else []))
            | _ \<Rightarrow> Inr []) es = Inr out \<Longrightarrow>
   (\<And>d kv. body d = Inr kv \<Longrightarrow> items_ok X p kv) \<Longrightarrow> all_ok X p out"
proof (induction es arbitrary: out)
  case Nil
  then show ?case by simp
next
  case (Cons x xs)
  then show ?case
    by (cases x) (auto split: sum.splits if_splits)
qed

lemma each_entry_ok:
  "each_entry body entries = Inr out \<Longrightarrow>
   (\<And>d kv. body d = Inr kv \<Longrightarrow> items_ok X p kv) \<Longrightarrow> all_ok X p out"
  unfolding each_entry_def
  by (auto split: sum.splits intro: collect_ok)

lemma skill_keywords_nonempty: "list_all (\<lambda>s. s \<noteq> []) (skill_keywords U v)"
  by (auto simp add: skill_keywords_def list_all_iff split: pyval.splits)

lemma skills_loop_ok:
  "X (p @ [str ''name'']) \<Longrightarrow> X (p @ [str ''level'']) \<Longrightarrow> all_ok X p (skills_loop U kvs)"
  by (induction U kvs rule: skills_loop.induct)
     (auto simp add: Let_def all_ok_strs skill_keywords_nonempty)

lemma convert_skills_ok: "all_ok may_be_empty [str ''skills''] (convert_skills U v)"
  by (cases v) (simp_all add: convert_skills_def skills_loop_ok may_be_empty_def)

lemma parse_city_region_city:
  "parse_city_region v = (city, region) \<Longrightarrow> city \<noteq> [] \<or> region \<noteq> [] \<Longrightarrow> city \<noteq> []"
proof (cases v)
  case (PStr location)
  assume a: "parse_city_region v = (city, region)" "city \<noteq> [] \<or> region \<noteq> []"
  let ?ps = "filter (\<lambda>p. p \<noteq> []) (map strip (split_char 44 location))"
  have ne: "list_all (\<lambda>p. p \<noteq> []) ?ps" by (simp add: list_all_iff)
  show ?thesis
    using a ne unfolding PStr parse_city_region_cases
    by (cases ?ps; cases "tl ?ps") auto
qed (auto simp add: parse_city_region_def)

lemma parse_link_profile_ok:
  "parse_link_profile U v = Some w \<Longrightarrow> X (p @ [str ''username'']) \<Longrightarrow> fields_ok X p w"
  unfolding parse_link_profile_def Let_def
  by (auto split: pyval.splits if_splits)

lemma profiles_ok:
  "all_ok may_be_empty [str ''basics'', str ''profiles'']
     (concat (map (\<lambda>url. case parse_link_profile U (PStr url) of Some p \<Rightarrow> [p] | None \<Rightarrow> []) urls))"
  by (induction urls)
     (auto simp add: all_ok_append may_be_empty_def split: option.splits
           intro!: parse_link_profile_ok)

lemma convert_basics_ok:
  "\<exists>b name. convert_basics U v = PDict b \<and> map_of b (str ''name'') = Some (PStr name)
      \<and> items_ok may_be_empty [str ''basics''] b"
proof -
  obtain city region where cr:
    "parse_city_region (PStr (field_str U (case v of PDict d \<Rightarrow> d | _ \<Rightarrow> []) ''location'')) =
       (city, region)"
    by (cases "parse_city_region (PStr (field_str U (case v of PDict d \<Rightarrow> d | _ \<Rightarrow> []) ''location''))")
  have city: "city \<noteq> [] \<or> region \<noteq> [] \<Longrightarrow> city \<noteq> []"
    using parse_city_region_city [OF cr] by blast
  show ?thesis
    unfolding convert_basics_def Let_def cr prod.case
    using city
      profiles_ok [of U "[field_str U (case v of PDict d \<Rightarrow> d | _ \<Rightarrow> []) ''linkedin'',
                          field_str U (case v of PDict d \<Rightarrow> d | _ \<Rightarrow> []) ''github'']"]
    by (auto simp add: items_ok_append items_ok_put may_be_empty_def)
qed

text \<open>
  C6, as the specification states it, fails: \<^verbatim>\<open>basics.name\<close> is not the only field emitted as an
  empty string. For the parsed input \<^verbatim>\<open>{"skills": {"tools": ["Git"]}}\<close> the output holds
  the category \<^verbatim>\<open>{"name": "Tools", "level": "", "keywords": ["Git"]}\<close>: its \<^verbatim>\<open>level\<close> is
  the empty string, as the docstring of \<^verbatim>\<open>_convert_skills\<close> shows it.
\<close>

theorem skills_level_emitted_empty:
  "to_json_resume ascii_lib
     (Some (PDict [(str ''skills'', PDict [(str ''tools'', PList [PStr (str ''Git'')])])])) =
   Inr (PDict [(str ''$schema'', PStr SCHEMA_URL),
               (str ''basics'', PDict [(str ''name'', PStr [])]),
               (str ''work'', PList []),
               (str ''education'', PList []),
               (str ''skills'',
                PList [PDict [(str ''name'', PStr (str ''Tools'')), (str ''level'', PStr []),
                              (str ''keywords'', PList [PStr (str ''Git'')])]]),
               (str ''projects'', PList [])])
   \<and> \<not> all_ok only_name [str ''skills'']
         [PDict [(str ''name'', PStr (str ''Tools'')), (str ''level'', PStr []),
                 (str ''keywords'', PList [PStr (str ''Git'')])]]"
  by (simp add: convert_defs entry_defs string_defs only_name_def Let_def)

text \<open>
  C6, amended. Whenever the assembler returns, the output document has exactly the keys
  \<^verbatim>\<open>$schema\<close>, \<^verbatim>\<open>basics\<close>, \<^verbatim>\<open>work\<close>, \<^verbatim>\<open>education\<close>, \<^verbatim>\<open>skills\<close>, \<^verbatim>\<open>projects\<close>, in this order;
  \<^verbatim>\<open>basics\<close> is an object that always has a \<^verbatim>\<open>name\<close>, and the other four are arrays, which
  may be empty. Below them no value is a null, a number or a boolean, no list and no object
  is empty, and no string is empty, except the strings at these paths: \<^verbatim>\<open>basics.name\<close>,
  \<^verbatim>\<open>basics.location.region\<close>, \<^verbatim>\<open>basics.profiles[].username\<close>, \<^verbatim>\<open>skills[].name\<close> and
  \<^verbatim>\<open>skills[].level\<close>.
\<close>

theorem to_json_resume_output_shape:
  assumes "to_json_resume U loaded = Inr out"
  shows "\<exists>basics work education skills projects name.
           out = PDict [(str ''$schema'', PStr SCHEMA_URL), (str ''basics'', PDict basics),
                        (str ''work'', PList work), (str ''education'', PList education),
                        (str ''skills'', PList skills), (str ''projects'', PList projects)]
           \<and> map_of basics (str ''name'') = Some (PStr name)
           \<and> items_ok may_be_empty [str ''basics''] basics
           \<and> all_ok may_be_empty [str ''work''] work
           \<and> all_ok may_be_empty [str ''education''] education
           \<and> all_ok may_be_empty [str ''skills''] skills
           \<and> all_ok may_be_empty [str ''projects''] projects"
proof -
  obtain data where loaded: "loaded = Some (PDict data)"
    using assms by (auto simp add: to_json_resume_def split: option.splits pyval.splits)
  let ?get = "\<lambda>k d. or_else (dict_get data (str k)) d"
  obtain e w p where
    e: "convert_education U (?get ''education'' (PList [])) = Inr e" and
    w: "convert_experience U (?get ''experience'' (PList [])) = Inr w" and
    p: "convert_projects U (?get ''projects'' (PList [])) = Inr p" and
    out: "out = PDict [(str ''$schema'', PStr SCHEMA_URL),
                       (str ''basics'', convert_basics U (?get ''basics'' (PDict []))),
                       (str ''work'', PList w), (str ''education'', PList e),
                       (str ''skills'', PList (convert_skills U (?get ''skills'' (PDict [])))),
                       (str ''projects'', PList p)]"
    using assms unfolding loaded to_json_resume_def Let_def
    by (auto split: sum.splits)
  obtain b name where b: "convert_basics U (?get ''basics'' (PDict [])) = PDict b"
      "map_of b (str ''name'') = Some (PStr name)" "items_ok may_be_empty [str ''basics''] b"
    using convert_basics_ok by blast
  have eok: "all_ok may_be_empty [str ''education''] e"
    using e unfolding convert_education_def
    by (rule each_entry_ok) (auto simp add: education_entry_ok)
  have wok: "all_ok may_be_empty [str ''work''] w"
    using w unfolding convert_experience_def
    by (rule each_entry_ok) (rule experience_entry_ok)
  have pok: "all_ok may_be_empty [str ''projects''] p"
    using p unfolding convert_projects_def
    by (rule each_entry_ok) (rule project_entry_ok)
  show ?thesis
    unfolding out b(1) using b(2,3) eok wok pok convert_skills_ok by blast
qed

theorem to_json_resume_output_shape_witness:
  "to_json_resume ascii_lib (Some sample_resume) =
     Inr (PDict [(str ''$schema'', PStr SCHEMA_URL),
                 (str ''basics'',
                  PDict [(str ''name'', PStr (str ''Ada'')),
                         (str ''location'',
                          PDict [(str ''city'', PStr (str ''Remote'')), (str ''region'', PStr [])])]),
                 (str ''work'', PList [PDict [(str ''name'', PStr (str ''Acme''))]]),
                 (str ''education'', PList []),
                 (str ''skills'',
                  PList [PDict [(str ''name'', PStr (str ''Tools'')), (str ''level'', PStr []),
                                (str ''keywords'', PList [PStr (str ''Git'')])]]),
                 (str ''projects'', PList [])])
   \<and> items_ok may_be_empty [str ''basics'']
         [(str ''name'', PStr (str ''Ada'')),
          (str ''location'', PDict [(str ''city'', PStr (str ''Remote'')), (str ''region'', PStr [])])]
   \<and> all_ok may_be_empty [str ''work''] [PDict [(str ''name'', PStr (str ''Acme''))]]
   \<and> all_ok may_be_empty [str ''skills'']
         [PDict [(str ''name'', PStr (str ''Tools'')), (str ''level'', PStr []),
                 (str ''keywords'', PList [PStr (str ''Git'')])]]"
proof -
  have run: "to_json_resume ascii_lib (Some sample_resume) =
     Inr (PDict [(str ''$schema'', PStr SCHEMA_URL),
                 (str ''basics'',
                  PDict [(str ''name'', PStr (str ''Ada'')),
                         (str ''location'',
                          PDict [(str ''city'', PStr (str ''Remote'')), (str ''region'', PStr [])])]),
                 (str ''work'', PList [PDict [(str ''name'', PStr (str ''Acme''))]]),
                 (str ''education'', PList []),
                 (str ''skills'',
                  PList [PDict [(str ''name'', PStr (str ''Tools'')), (str ''level'', PStr []),
                                (str ''keywords'', PList [PStr (str ''Git'')])]]),
                 (str ''projects'', PList [])])"
    by (simp add: sample_resume_def convert_defs entry_defs date_defs regex_defs string_defs Let_def)
  show ?thesis
    using to_json_resume_output_shape [OF run] run by auto
qed

section \<open>The degree-title splitter\<close>

lemma in_match_shape:
  assumes "in_match s = Some n"
  shows "\<exists>w1 i n' w2 rest.
           s = w1 @ i # n' # w2 @ rest \<and> w1 \<noteq> [] \<and> list_all isspace w1 \<and>
           imatch 105 i \<and> imatch 110 n' \<and> w2 \<noteq> [] \<and> list_all isspace w2 \<and>
           (rest = [] \<or> \<not> isspace (hd rest)) \<and> n = length w1 + 2 + length w2"
proof -
  let ?w = "takeWhile isspace s"
  have d: "drop (length ?w) s = dropWhile isspace s"
    by (simp add: dropWhile_eq_drop)
  from assms obtain i n' x rest0 where
    r: "dropWhile isspace s = i # n' # x # rest0" and
    c: "0 < length ?w" "imatch 105 i" "imatch 110 n'" "isspace x" and
    n: "n = length ?w + 3 + length (takeWhile isspace rest0)"
    unfolding in_match_def Let_def d
    by (auto split: list.splits if_splits)
  let ?w2 = "x # takeWhile isspace rest0"
  let ?rest = "dropWhile isspace rest0"
  have "s = ?w @ i # n' # ?w2 @ ?rest"
    using takeWhile_dropWhile_id [of isspace s] r by simp
  moreover have "list_all isspace ?w" "list_all isspace ?w2"
    using c(4) by (auto simp add: list_all_iff dest: set_takeWhileD)
  moreover have "?rest = [] \<or> \<not> isspace (hd ?rest)"
    using hd_dropWhile [of isspace rest0] by blast
  ultimately show ?thesis using c n
    by (intro exI [of _ ?w] exI [of _ i] exI [of _ n'] exI [of _ ?w2] exI [of _ ?rest]) auto
qed

lemma re_split_first_match:
  "re_split m s =
     (case first_match m s of
        None \<Rightarrow> [s]
      | Some (i, n) \<Rightarrow> take i s # re_split m (drop (i + n) s))"
proof (induction s)
  case Nil
  show ?case by simp
next
  case (Cons c cs)
  show ?case
  proof (cases "m (c # cs)")
    case None
    then show ?thesis using Cons by (auto split: option.splits)
  next
    case (Some k)
    then show ?thesis using Cons by (cases k) (auto split: option.splits)
  qed
qed

lemma first_match_leftmost:
  "first_match m s = Some (i, n) \<Longrightarrow>
   i < length s \<and> 0 < n \<and> m (drop i s) = Some n \<and>
   (\<forall>j<i. m (drop j s) = None \<or> m (drop j s) = Some 0)"
proof (induction s arbitrary: i)
  case Nil
  then show ?case by simp
next
  case (Cons c cs)
  show ?case
  proof (cases "\<exists>k. m (c # cs) = Some (Suc k)")
    case True
    then show ?thesis using Cons.prems by auto
  next
    case False
    then have none: "m (c # cs) = None \<or> m (c # cs) = Some 0"
      by (cases "m (c # cs)") (auto simp add: gr0_conv_Suc intro: nat.exhaust)
    from False Cons.prems obtain i' where i': "first_match m cs = Some (i', n)" "i = Suc i'"
      by (auto split: option.splits nat.splits)
    from Cons.IH [OF i'(1)] none i'(2) show ?thesis
      by (auto simp add: less_Suc_eq_0_disj)
  qed
qed

lemma first_match_none:
  "first_match m s = None \<Longrightarrow> j < length s \<Longrightarrow> m (drop j s) = None \<or> m (drop j s) = Some 0"
proof (induction s arbitrary: j)
  case Nil
  then show ?case by simp
next
  case (Cons c cs)
  from Cons.prems(1) have here: "m (c # cs) = None \<or> m (c # cs) = Some 0" and
      rest: "first_match m cs = None"
    by (auto split: option.splits nat.splits)
  show ?case
  proof (cases j)
    case 0
    then show ?thesis using here by simp
  next
    case (Suc j')
    then show ?thesis using Cons.IH [OF rest, of j'] Cons.prems(2) by simp
  qed
qed

lemma split_degree_title_eq:
  "split_degree_title (PStr title0) =
     (let t = strip title0 in
      case first_match in_match t of
        None \<Rightarrow> (t, [])
      | Some (i, n) \<Rightarrow>
          (strip (take i t),
           strip (case first_match in_match (drop (i + n) t) of
                    None \<Rightarrow> drop (i + n) t
                  | Some (j, k) \<Rightarrow> take j (drop (i + n) t))))"
proof -
  let ?t = "strip title0"
  show ?thesis
  proof (cases "first_match in_match ?t")
    case None
    then have "re_split in_match ?t = [?t]" by (simp add: re_split_first_match)
    moreover have "?t = [] \<Longrightarrow> first_match in_match ?t = None" by simp
    ultimately show ?thesis using None by (simp add: split_degree_title_def Let_def)
  next
    case (Some a)
    obtain i n where a: "a = (i, n)" by (cases a)
    have ne: "?t \<noteq> []" using Some by auto
    let ?r = "drop (i + n) ?t"
    have parts: "re_split in_match ?t = take i ?t # re_split in_match ?r"
      using Some a by (simp add: re_split_first_match)
    have second: "re_split in_match ?r ! 0 =
        (case first_match in_match ?r of None \<Rightarrow> ?r | Some (j, k) \<Rightarrow> take j ?r)"
      by (subst re_split_first_match) (simp split: option.splits)
    have len: "length (re_split in_match ?t) \<noteq> 1"
      using parts re_split_nonempty [of in_match ?r] by (cases "re_split in_match ?r") auto
    show ?thesis
      using Some a ne len second
      by (simp add: split_degree_title_def Let_def parts)
  qed
qed

text \<open>
  C5 (code defect). The specification asks that only the first " in " splits the title,
  the area being the entire remainder after it. \<^verbatim>\<open>re.split\<close> is called without a
  \<^verbatim>\<open>maxsplit\<close>, so the title is cut at every occurrence, and \<^verbatim>\<open>parts[1]\<close> is taken as the
  area: the text after a second " in " is lost. "BS in CS in Eng" gives the area "CS"
  where the remainder is "CS in Eng". (\<^verbatim>\<open>_parse_link_profile\<close> passes the limit 1 to its
  split; this one misses it.)
\<close>

theorem split_degree_title_area_not_remainder:
  "split_degree_title (PStr (str ''BS in CS in Eng'')) = (str ''BS'', str ''CS'')
   \<and> split_degree_title (PStr (str ''BS in CS in Eng'')) \<noteq> (str ''BS'', str ''CS in Eng'')
   \<and> re_split in_match (str ''BS in CS in Eng'') = [str ''BS'', str ''CS'', str ''Eng'']"
  by (simp add: split_degree_title_def regex_defs string_defs)

text \<open>
  Where the code does what the specification says: a title with no occurrence is the
  study type, whole and trimmed, with an empty area; a title with one occurrence and no
  other after it gives the text before it and the entire remainder, both trimmed; an empty
  string and any value that is not a string give \<^verbatim>\<open>("", "")\<close>; and the two examples of the
  specification hold.
\<close>

lemma split_degree_title_no_occurrence:
  "first_match in_match (strip title0) = None \<Longrightarrow>
   split_degree_title (PStr title0) = (strip title0, [])"
  by (simp add: split_degree_title_eq Let_def)

lemma split_degree_title_one_occurrence:
  "first_match in_match (strip title0) = Some (i, n) \<Longrightarrow>
   first_match in_match (drop (i + n) (strip title0)) = None \<Longrightarrow>
   split_degree_title (PStr title0) =
     (strip (take i (strip title0)), strip (drop (i + n) (strip title0)))"
  by (simp add: split_degree_title_eq Let_def)

lemma split_degree_title_other_values:
  "split_degree_title (PStr []) = ([], [])"
  "split_degree_title PNone = ([], [])"
  "split_degree_title (PBool b) = ([], [])"
  "split_degree_title (PInt z) = ([], [])"
  "split_degree_title (PFloat nz txt) = ([], [])"
  "split_degree_title (PList xs) = ([], [])"
  "split_degree_title (PDict d) = ([], [])"
  by (simp_all add: split_degree_title_def strip_def)

lemma split_degree_title_examples:
  "split_degree_title (PStr (str ''Masters of Engineering in Computer Science'')) =
     (str ''Masters of Engineering'', str ''Computer Science'')"
  "split_degree_title (PStr (str ''BS Computer Science'')) = (str ''BS Computer Science'', [])"
  by (simp_all add: split_degree_title_def regex_defs string_defs)

section \<open>The profile-link parser\<close>

lemma split_when_snoc:
  "split_when P (s @ [c]) =
     (if P c then split_when P s @ [[]]
      else butlast (split_when P s) @ [last (split_when P s) @ [c]])"
proof (induction s)
  case Nil
  show ?case by simp
next
  case (Cons a s)
  obtain p ps where e: "split_when P s = p # ps"
    using split_when_nonempty [of P s] by (cases "split_when P s") auto
  show ?case using Cons e by (auto split: list.splits)
qed

lemma last_split_when:
  "last (split_when (\<lambda>c. c = d) s) = rev (takeWhile (\<lambda>c. c \<noteq> d) (rev s))"
proof (induction s rule: rev_induct)
  case Nil
  show ?case by simp
next
  case (snoc c s)
  then show ?case using split_when_nonempty [of "\<lambda>c. c = d" s]
    by (simp add: split_when_snoc)
qed

lemma last_nonempty_segment:
  "(let segments = filter (\<lambda>s. s \<noteq> []) (split_when (\<lambda>c. c = d) path)
    in if segments \<noteq> [] then last segments else []) =
   rev (takeWhile (\<lambda>c. c \<noteq> d) (dropWhile (\<lambda>c. c = d) (rev path)))"
proof (induction path rule: rev_induct)
  case Nil
  show ?case by simp
next
  case (snoc c s)
  show ?case
  proof (cases "c = d")
    case True
    then show ?thesis using snoc by (simp add: split_when_snoc Let_def)
  next
    case False
    have ne: "split_when (\<lambda>c. c = d) s \<noteq> []" by (rule split_when_nonempty)
    show ?thesis using False ne last_split_when [of d s]
      by (simp add: split_when_snoc Let_def)
  qed
qed

lemma contains_iff: "contains sub s \<longleftrightarrow> (\<exists>a b. s = a @ sub @ b)"
proof (induction s)
  case Nil
  show ?case by auto
next
  case (Cons c cs)
  have st: "starts_with sub (c # cs) \<longleftrightarrow> (\<exists>b. c # cs = sub @ b)"
    unfolding starts_with_def
    by (metis append_eq_conv_conj append_take_drop_id)
  show ?case
  proof
    assume "contains sub (c # cs)"
    then consider "starts_with sub (c # cs)" | "contains sub cs" by auto
    then show "\<exists>a b. c # cs = a @ sub @ b"
    proof cases
      case 1
      then show ?thesis using st by (metis append_Nil)
    next
      case 2
      then obtain a b where "cs = a @ sub @ b" using Cons by blast
      then have "c # cs = (c # a) @ sub @ b" by simp
      then show ?thesis by blast
    qed
  next
    assume "\<exists>a b. c # cs = a @ sub @ b"
    then obtain a b where ab: "c # cs = a @ sub @ b" by blast
    show "contains sub (c # cs)"
    proof (cases a)
      case Nil
      then have "starts_with sub (c # cs)" using ab st by auto
      then show ?thesis by simp
    next
      case (Cons a0 a')
      then have "cs = a' @ sub @ b" using ab by simp
      then show ?thesis using Cons.IH by auto
    qed
  qed
qed

lemma after_first_None: "after_first sep s = None \<Longrightarrow> \<not> contains sep s"
  by (induction s) (auto simp add: starts_with_def split: if_splits)

lemma after_first_Some:
  "after_first sep s = Some r \<Longrightarrow> \<exists>a. s = a @ sep @ r"
proof (induction s)
  case Nil
  then show ?case by (auto split: if_splits)
next
  case (Cons c cs)
  show ?case
  proof (cases "starts_with sep (c # cs)")
    case True
    then have "c # cs = sep @ r" using Cons.prems
      by (simp add: starts_with_def) (metis append_take_drop_id)
    then show ?thesis by (metis append_Nil)
  next
    case False
    then obtain a where "cs = a @ sep @ r" using Cons by auto
    then have "c # cs = (c # a) @ sep @ r" by simp
    then show ?thesis by blast
  qed
qed

lemma contains_length: "contains sub s \<Longrightarrow> length sub \<le> length s"
  by (auto simp add: contains_iff)

lemma after_first_leftmost:
  "sep \<noteq> [] \<Longrightarrow> after_first sep s = Some r \<Longrightarrow>
   \<exists>a. s = a @ sep @ r \<and> \<not> contains sep (a @ butlast sep)"
proof (induction s)
  case Nil
  then show ?case by simp
next
  case (Cons c cs)
  show ?case
  proof (cases "starts_with sep (c # cs)")
    case True
    then have "c # cs = [] @ sep @ r" using Cons.prems
      by (simp add: starts_with_def) (metis append_take_drop_id)
    moreover have "\<not> contains sep ([] @ butlast sep)"
    proof
      assume "contains sep ([] @ butlast sep)"
      then have "contains sep (butlast sep)" by simp
      then have "length sep \<le> length (butlast sep)" by (rule contains_length)
      moreover have "length (butlast sep) < length sep"
        using Cons.prems(1) by (cases sep rule: rev_cases) auto
      ultimately show False by arith
    qed
    ultimately show ?thesis by blast
  next
    case False
    then obtain a where a: "cs = a @ sep @ r" "\<not> contains sep (a @ butlast sep)"
      using Cons by auto
    have "\<not> starts_with sep (c # a @ butlast sep)"
    proof
      assume st: "starts_with sep (c # a @ butlast sep)"
      have le: "length sep \<le> length (c # a @ butlast sep)"
        by (cases sep rule: rev_cases) auto
      have "c # cs = (c # a @ butlast sep) @ [last sep] @ r"
        using a(1) Cons.prems(1) by simp
      then have "take (length sep) (c # cs) = take (length sep) (c # a @ butlast sep)"
        using le by (simp del: append.simps)
      then show False using st False by (simp add: starts_with_def)
    qed
    then have "\<not> contains sep ((c # a) @ butlast sep)" using a(2) by simp
    moreover have "c # cs = (c # a) @ sep @ r" using a(1) by simp
    ultimately show ?thesis by blast
  qed
qed

lemma split1_last_spec:
  assumes "sep \<noteq> []"
  shows "(contains sep s \<longrightarrow>
            (\<exists>a. s = a @ sep @ split1_last sep s \<and> \<not> contains sep (a @ butlast sep)))
         \<and> (\<not> contains sep s \<longrightarrow> split1_last sep s = s)"
proof (cases "after_first sep s")
  case None
  then show ?thesis using after_first_None [of sep s] by (simp add: split1_last_def)
next
  case (Some r)
  then have "contains sep s" using after_first_Some [of sep s r] contains_iff by blast
  then show ?thesis
    using after_first_leftmost [OF assms Some] Some by (simp add: split1_last_def)
qed

lemma parse_link_profile_eq:
  "parse_link_profile U (PStr url0) =
     (if strip url0 = [] then None
      else Some (PDict
        [(str ''network'',
          PStr (if contains (str ''linkedin.com'') (lower U (strip url0)) then str ''LinkedIn''
                else if contains (str ''github.com'') (lower U (strip url0)) then str ''GitHub''
                else str ''Profile'')),
         (str ''username'', PStr (trailing_segment (split1_last (str ''://'') (strip url0)))),
         (str ''url'', PStr (strip url0))]))"
  using last_nonempty_segment [of 47 "split1_last (str ''://'') (strip url0)"]
  by (simp add: parse_link_profile_def Let_def split_char_def trailing_segment_def)

text \<open>
  C7, as the specification states it, fails: a URL string that is not empty can yield no profile.
  The parser trims its input first, so the one-space string yields \<^verbatim>\<open>None\<close>, and a URL
  with whitespace around it is emitted trimmed.
\<close>

theorem parse_link_profile_blank_url_no_profile:
  "str '' '' \<noteq> [] \<and> parse_link_profile ascii_lib (PStr (str '' '')) = None"
  by (simp add: parse_link_profile_def string_defs)

text \<open>
  C7, amended. The parser works on the URL trimmed of surrounding whitespace. When the
  trimmed URL is not empty it yields a profile: the network is LinkedIn when the
  lower-cased URL contains "linkedin.com", else GitHub when it contains "github.com", else
  Profile; the username is the last non-empty piece, between slashes, of the text after
  the first "://" (of the whole URL when it has no "://"), and is empty when that text
  holds nothing but slashes; the \<^verbatim>\<open>url\<close> is the trimmed URL. When the trimmed URL is empty,
  and for any value that is not a string, it yields no profile. The input
  "https://github.com/PCosby/" yields GitHub, PCosby and the URL itself.
\<close>

theorem parse_link_profile_trimmed_url:
  "parse_link_profile U (PStr url0) =
     (if strip url0 = [] then None
      else Some (PDict
        [(str ''network'',
          PStr (if contains (str ''linkedin.com'') (lower U (strip url0)) then str ''LinkedIn''
                else if contains (str ''github.com'') (lower U (strip url0)) then str ''GitHub''
                else str ''Profile'')),
         (str ''username'', PStr (trailing_segment (split1_last (str ''://'') (strip url0)))),
         (str ''url'', PStr (strip url0))]))
   \<and> (contains (str ''://'') (strip url0) \<longrightarrow>
        (\<exists>a. strip url0 = a @ str ''://'' @ split1_last (str ''://'') (strip url0)
             \<and> \<not> contains (str ''://'') (a @ butlast (str ''://''))))
   \<and> (\<not> contains (str ''://'') (strip url0) \<longrightarrow> split1_last (str ''://'') (strip url0) = strip url0)
   \<and> parse_link_profile U PNone = None
   \<and> parse_link_profile U (PBool b) = None
   \<and> parse_link_profile U (PInt z) = None
   \<and> parse_link_profile U (PFloat nz txt) = None
   \<and> parse_link_profile U (PList xs) = None
   \<and> parse_link_profile U (PDict d) = None
   \<and> parse_link_profile U (PStr (str ''https://github.com/PCosby/'')) =
       Some (PDict [(str ''network'', PStr (str ''GitHub'')),
                    (str ''username'', PStr (str ''PCosby'')),
                    (str ''url'', PStr (str ''https://github.com/PCosby/''))])"
proof -
  have other:
    "parse_link_profile U PNone = None" "parse_link_profile U (PBool b) = None"
    "parse_link_profile U (PInt z) = None" "parse_link_profile U (PFloat nz txt) = None"
    "parse_link_profile U (PList xs) = None" "parse_link_profile U (PDict d) = None"
    by (simp_all add: parse_link_profile_def)
  have ex: "parse_link_profile U (PStr (str ''https://github.com/PCosby/'')) =
       Some (PDict [(str ''network'', PStr (str ''GitHub'')),
                    (str ''username'', PStr (str ''PCosby'')),
                    (str ''url'', PStr (str ''https://github.com/PCosby/''))])"
    by (simp add: parse_link_profile_def string_defs)
  have sep: "str ''://'' \<noteq> []" by simp
  show ?thesis
    using parse_link_profile_eq [of U url0] split1_last_spec [OF sep, of "strip url0"] other ex
    by blast
qed

theorem parse_link_profile_trimmed_url_witness:
  "parse_link_profile ascii_lib (PStr (str '' https://github.com/PCosby/ '')) =
     Some (PDict [(str ''network'', PStr (str ''GitHub'')),
                  (str ''username'', PStr (str ''PCosby'')),
                  (str ''url'', PStr (str ''https://github.com/PCosby/''))])
   \<and> contains (str ''://'') (str ''https://github.com/PCosby/'')
   \<and> (\<exists>a. str ''https://github.com/PCosby/'' =
             a @ str ''://'' @ split1_last (str ''://'') (str ''https://github.com/PCosby/'')
           \<and> \<not> contains (str ''://'') (a @ butlast (str ''://'')))
   \<and> \<not> contains (str ''://'') (str ''github.com/x'')
   \<and> split1_last (str ''://'') (str ''github.com/x'') = str ''github.com/x''"
proof -
  have trim1: "strip (str '' https://github.com/PCosby/ '') = str ''https://github.com/PCosby/''"
    by (simp add: string_defs)
  have trim2: "strip (str ''github.com/x'') = str ''github.com/x''"
    by (simp add: string_defs)
  have has: "contains (str ''://'') (str ''https://github.com/PCosby/'')"
    by (simp add: string_defs)
  have hasnt: "\<not> contains (str ''://'') (str ''github.com/x'')"
    by (simp add: string_defs)
  have run: "parse_link_profile ascii_lib (PStr (str '' https://github.com/PCosby/ '')) =
     Some (PDict [(str ''network'', PStr (str ''GitHub'')),
                  (str ''username'', PStr (str ''PCosby'')),
                  (str ''url'', PStr (str ''https://github.com/PCosby/''))])"
    by (simp add: parse_link_profile_def string_defs)
  have first: "\<exists>a. str ''https://github.com/PCosby/'' =
             a @ str ''://'' @ split1_last (str ''://'') (str ''https://github.com/PCosby/'')
           \<and> \<not> contains (str ''://'') (a @ butlast (str ''://''))"
    using parse_link_profile_trimmed_url [of ascii_lib "str '' https://github.com/PCosby/ ''"] has
    unfolding trim1 by blast
  have second: "split1_last (str ''://'') (str ''github.com/x'') = str ''github.com/x''"
    using parse_link_profile_trimmed_url [of ascii_lib "str ''github.com/x''"] hasnt
    unfolding trim2 by blast
  show ?thesis using run has first hasnt second by blast
qed

end
